theory Spec2Isabelle
  imports Complex_Main "HOL-Library.Sublist"
begin

section \<open>pediatricIQphantoms: the batch and identity layer of make\_phantoms.py\<close>

text \<open>
  The development follows \<^verbatim>\<open>src/pediatricIQphantoms/make_phantoms.py\<close>.
  Conventions of the embedding:
  \<^item> a Python exception is a value of \<open>py_error\<close>; a function that can raise returns
    \<open>py_error + 'a\<close> with \<open>Inl\<close> for the exception;
  \<^item> Python numbers are \<open>int\<close> where the source handles integers and \<open>real\<close> where it
    handles floats: a float is the real number it stands for, and a float product or
    quotient is the exact one rounded to the nearest double (\<open>round_double\<close>);
  \<^item> strings are \<open>string\<close> (lists of 8-bit characters), which covers the ASCII text the
    program builds;
  \<^item> the Octave simulator and the DICOM template file of pydicom are not part of the
    repository: the simulator is a function parameter, and the template's four UIDs are
    a record parameter.
\<close>

datatype py_error =
    ValueError
  | TypeError
  | KeyError
  | IndexError
  | AssertionError
  | AttributeError
  | UnboundLocalError
  | ZeroDivisionError
  | OverflowError
  | FileNotFoundError

subsection \<open>Lesion diameters and phantom names\<close>

text \<open>
  The argument \<^verbatim>\<open>lesion_diameter\<close> is \<^verbatim>\<open>False\<close> by default, a number for CTP404, a
  list of four numbers for CCT189, or a numpy array that \<^verbatim>\<open>mirt_sim\<close> turns into a list.
\<close>

datatype lesion =
    LBool bool
  | LNum real
  | LList "real list"
  | LArray "real list"

text \<open>\<^verbatim>\<open>if lesion_diameter:\<close> - Python truth of a bool, a number and a list.\<close>

fun py_truthy :: "lesion \<Rightarrow> bool" where
  "py_truthy (LBool b) = b"
| "py_truthy (LNum x) = (x \<noteq> 0)"
| "py_truthy (LList xs) = (xs \<noteq> [])"
| "py_truthy (LArray xs) = (xs \<noteq> [])"

text \<open>\<^verbatim>\<open>isinstance(lesion_diameter, int | float)\<close>; \<^verbatim>\<open>bool\<close> is a subclass of \<^verbatim>\<open>int\<close>.\<close>

fun is_int_or_float :: "lesion \<Rightarrow> bool" where
  "is_int_or_float (LBool b) = True"
| "is_int_or_float (LNum x) = True"
| "is_int_or_float (LList xs) = False"
| "is_int_or_float (LArray xs) = False"

text \<open>\<^verbatim>\<open>len(lesion_diameter)\<close> raises TypeError on a bool or a number.\<close>

fun py_len :: "lesion \<Rightarrow> py_error + nat" where
  "py_len (LBool b) = Inl TypeError"
| "py_len (LNum x) = Inl TypeError"
| "py_len (LList xs) = Inr (length xs)"
| "py_len (LArray xs) = Inr (length xs)"

text \<open>\<^verbatim>\<open>str.upper\<close> on ASCII text.\<close>

definition upper_char :: "char \<Rightarrow> char" where
  "upper_char c =
     (case map_of (zip ''abcdefghijklmnopqrstuvwxyz'' ''ABCDEFGHIJKLMNOPQRSTUVWXYZ'') c of
        None \<Rightarrow> c
      | Some u \<Rightarrow> u)"

definition py_upper :: "string \<Rightarrow> string" where
  "py_upper s = map upper_char s"

definition aliases :: "string list" where
  "aliases = [''MITA-LCD'', ''MITA'', ''MITALCD'', ''LCD'']"

definition options :: "string list" where
  "options = [''CTP404'', ''CCT189'', ''UNIFORM'']"

text \<open>
  \<^verbatim>\<open>if phantom in ['MITA-LCD', 'MITA', 'MITALCD', 'LCD']: phantom = 'CCT189'\<close>, the first
  line of both \<^verbatim>\<open>CTobj.__init__\<close> and \<^verbatim>\<open>mirt_sim\<close>.
\<close>

definition normalize_alias :: "string \<Rightarrow> string" where
  "normalize_alias phantom = (if phantom \<in> set aliases then ''CCT189'' else phantom)"

text \<open>
  The phantom check of \<^verbatim>\<open>CTobj.__init__\<close> (lines 45-49): the value stored in
  \<^verbatim>\<open>self.phantom\<close>, or ValueError.
\<close>

definition init_phantom :: "string \<Rightarrow> py_error + string" where
  "init_phantom phantom =
     (let p = normalize_alias phantom
      in if py_upper p \<notin> set options then Inl ValueError else Inr p)"

subsection \<open>Float arithmetic\<close>

text \<open>
  Rounding of a real to the nearest integer, ties to the even one, and of a real to the
  nearest IEEE double (53 significant bits, ties to even). Overflow and subnormal
  results are not modelled: the numbers of this program are far from both.
\<close>

definition round_half_even :: "real \<Rightarrow> int" where
  "round_half_even y =
     (let f = \<lfloor>y\<rfloor>
      in if y - of_int f < 1 / 2 then f
         else if 1 / 2 < y - of_int f then f + 1
         else if even f then f else f + 1)"

definition round_double :: "real \<Rightarrow> real" where
  "round_double x =
     (if x = 0 then 0
      else let u = 2 powr (of_int \<lfloor>log 2 \<bar>x\<bar>\<rfloor> - 52)
           in u * of_int (round_half_even (x / u)))"

text \<open>The float operations \<^verbatim>\<open>a * b\<close> and \<^verbatim>\<open>a / b\<close> (for a divisor that is not zero).\<close>

definition float_mul :: "real \<Rightarrow> real \<Rightarrow> real" where
  "float_mul a b = round_double (a * b)"

definition float_div :: "real \<Rightarrow> real \<Rightarrow> real" where
  "float_div a b = round_double (a / b)"

text \<open>The double that the literal \<^verbatim>\<open>1.1\<close> denotes.\<close>

definition float_1_1 :: real where
  "float_1_1 = 2476979795053773 / 2251799813685248"

subsection \<open>The simulation invoker \<^verbatim>\<open>mirt_sim\<close>\<close>

text \<open>
  The call that \<^verbatim>\<open>mirt_sim\<close> makes to Octave: the entry point (\<^verbatim>\<open>ct_sim\<close> when verbose,
  \<^verbatim>\<open>ct_sim_quiet\<close> otherwise) and the nineteen arguments in the order of the source.
\<close>

record octave_call =
  oc_verbose :: bool
  oc_phantom :: string
  oc_patient_diameter :: real
  oc_reference_diameter :: real
  oc_lesion_diameter :: lesion
  oc_I0 :: real
  oc_nb :: int
  oc_na :: int
  oc_ds :: real
  oc_sdd :: real
  oc_sid :: real
  oc_offset_s :: real
  oc_down :: int
  oc_has_bowtie :: bool
  oc_add_noise :: bool
  oc_aec_on :: bool
  oc_nx :: int
  oc_fov :: real
  oc_fbp_kernel :: string
  oc_nsims :: int

record sim_args =
  sa_phantom :: string
  sa_patient_diameter :: real
  sa_reference_diameter :: real
  sa_reference_fov :: real
  sa_I0 :: real
  sa_nb :: int
  sa_na :: int
  sa_ds :: real
  sa_sid :: real
  sa_sdd :: real
  sa_offset_s :: real
  sa_down :: int
  sa_has_bowtie :: bool
  sa_add_noise :: bool
  sa_aec_on :: bool
  sa_nx :: int
  sa_fov :: real
  sa_fbp_kernel :: string
  sa_nsims :: int
  sa_lesion_diameter :: lesion
  sa_verbose :: bool

text \<open>Lines 221-224: the field of view handed to the simulator; the argument \<^verbatim>\<open>fov\<close> is overwritten.\<close>

definition mirt_fov :: "real \<Rightarrow> real \<Rightarrow> real \<Rightarrow> real" where
  "mirt_fov patient_diameter reference_diameter reference_fov =
     (if patient_diameter = reference_diameter then reference_fov
      else float_mul float_1_1 patient_diameter)"

text \<open>Line 225: a numpy array becomes a list.\<close>

fun as_list :: "lesion \<Rightarrow> lesion" where
  "as_list (LArray xs) = LList xs"
| "as_list l = l"

text \<open>
  Lines 226-230. Both operands of \<^verbatim>\<open>&\<close> are evaluated, so \<^verbatim>\<open>len\<close> is called on every
  truthy lesion diameter that passed the first test. On two bools \<^verbatim>\<open>a & ~b\<close> is
  \<^verbatim>\<open>1\<close> exactly when \<^verbatim>\<open>a\<close> holds and \<^verbatim>\<open>b\<close> does not.
\<close>

definition check_lesion :: "string \<Rightarrow> lesion \<Rightarrow> py_error + unit" where
  "check_lesion phantom lesion_diameter =
     (if py_truthy lesion_diameter then
        (if py_upper phantom = ''CTP404'' \<and> \<not> is_int_or_float lesion_diameter
         then Inl ValueError
         else (case py_len lesion_diameter of
                 Inl e \<Rightarrow> Inl e
               | Inr n \<Rightarrow> if phantom = ''CCT189'' \<and> n \<noteq> 4 then Inl ValueError else Inr ()))
      else Inr ())"

text \<open>
  \<^verbatim>\<open>mirt_sim\<close> up to the Octave call: an exception, or the call it makes. What Octave
  returns is the simulator's business.
\<close>

definition mirt_sim :: "sim_args \<Rightarrow> py_error + octave_call" where
  "mirt_sim a =
     (let phantom = normalize_alias (sa_phantom a);
          fov = mirt_fov (sa_patient_diameter a) (sa_reference_diameter a) (sa_reference_fov a);
          lesion_diameter = as_list (sa_lesion_diameter a)
      in case check_lesion phantom lesion_diameter of
           Inl e \<Rightarrow> Inl e
         | Inr u \<Rightarrow> Inr \<lparr> oc_verbose = sa_verbose a, oc_phantom = phantom,
               oc_patient_diameter = sa_patient_diameter a,
               oc_reference_diameter = sa_reference_diameter a,
               oc_lesion_diameter = lesion_diameter, oc_I0 = sa_I0 a, oc_nb = sa_nb a,
               oc_na = sa_na a, oc_ds = sa_ds a, oc_sdd = sa_sdd a, oc_sid = sa_sid a,
               oc_offset_s = sa_offset_s a, oc_down = sa_down a,
               oc_has_bowtie = sa_has_bowtie a, oc_add_noise = sa_add_noise a,
               oc_aec_on = sa_aec_on a, oc_nx = sa_nx a, oc_fov = fov,
               oc_fbp_kernel = sa_fbp_kernel a, oc_nsims = sa_nsims a \<rparr>)"

text \<open>The default arguments of \<^verbatim>\<open>mirt_sim\<close> (lines 213-215).\<close>

definition default_sim_args :: sim_args where
  "default_sim_args = \<lparr> sa_phantom = ''CCT189'', sa_patient_diameter = 200,
     sa_reference_diameter = 200, sa_reference_fov = 340, sa_I0 = 300000, sa_nb = 900,
     sa_na = 580, sa_ds = 1, sa_sid = 595, sa_sdd = 10856 / 10, sa_offset_s = 5 / 4,
     sa_down = 1, sa_has_bowtie = False, sa_add_noise = True, sa_aec_on = True, sa_nx = 512,
     sa_fov = 340, sa_fbp_kernel = ''hanning,2.05'', sa_nsims = 1,
     sa_lesion_diameter = LBool False, sa_verbose = True \<rparr>"

subsection \<open>The age curve and the pediatric subgroups\<close>

text \<open>Sequencing of calls that can raise.\<close>

fun bind :: "'e + 'a \<Rightarrow> ('a \<Rightarrow> 'e + 'b) \<Rightarrow> 'e + 'b" where
  "bind (Inl e) f = Inl e"
| "bind (Inr x) f = f x"

text \<open>
  Lines 237-245: the dictionary \<^verbatim>\<open>adult_waist_circumferences_cm\<close>; the entries for 20
  and 50 are commented out in the source. A float key such as \<^verbatim>\<open>30.0\<close> finds the
  integer key \<^verbatim>\<open>30\<close>, so the keys are reals here.
\<close>

definition adult_waist_circumferences_cm :: "(real \<times> real) list" where
  "adult_waist_circumferences_cm =
     [(30, 999 / 10), (40, 1028 / 10), (60, 1062 / 10), (70, 1066 / 10), (80, 1041 / 10)]"

text \<open>Python's \<^verbatim>\<open>x % m\<close> for a positive modulus: the remainder of floor division.\<close>

definition py_mod :: "real \<Rightarrow> real \<Rightarrow> real" where
  "py_mod x m = x - m * of_int \<lfloor>x / m\<rfloor>"

definition round_to_decile :: "real \<Rightarrow> real" where
  "round_to_decile age = age - py_mod age 10"

text \<open>
  A Python number that is a float or a complex number: a negative base under a
  fractional exponent gives a complex number.
\<close>

datatype py_num = PyFloat real | PyComplex complex

fun to_complex :: "py_num \<Rightarrow> complex" where
  "to_complex (PyFloat r) = complex_of_real r"
| "to_complex (PyComplex z) = z"

fun py_add :: "py_num \<Rightarrow> py_num \<Rightarrow> py_num" where
  "py_add (PyFloat a) (PyFloat b) = PyFloat (a + b)"
| "py_add x y = PyComplex (to_complex x + to_complex y)"

fun py_mul :: "py_num \<Rightarrow> py_num \<Rightarrow> py_num" where
  "py_mul (PyFloat a) (PyFloat b) = PyFloat (a * b)"
| "py_mul x y = PyComplex (to_complex x * to_complex y)"

text \<open>
  \<^verbatim>\<open>x ** y\<close> for a number \<open>x\<close> and a positive exponent \<open>y\<close> that is not a whole number,
  as 1.5 and 0.5 are: the real power, and for a negative base the complex power in polar
  form. The arithmetic of the polynomial is exact here: no rounding of \<^verbatim>\<open>**\<close> and
  \<^verbatim>\<open>exp\<close> is modelled.
\<close>

definition py_pow :: "real \<Rightarrow> real \<Rightarrow> py_num" where
  "py_pow x y =
     (if x < 0 then PyComplex (complex_of_real (\<bar>x\<bar> powr y) * cis (y * pi))
      else PyFloat (x powr y))"

text \<open>
  Equation A-3 of TG204 as lines 258-264 compute it:
  \<^verbatim>\<open>y = a + b*x**1.5 + c*x**0.5 + d*np.exp(-x)\<close>.
\<close>

definition tg204 :: "real \<Rightarrow> py_num" where
  "tg204 x =
     py_add (py_add (py_add (PyFloat (18788598 / 1000000))
                            (py_mul (PyFloat (19486455 / 100000000)) (py_pow x (3 / 2))))
                    (py_mul (PyFloat (- 1060056 / 1000000)) (py_pow x (1 / 2))))
            (PyFloat ((- 76244784 / 10000000) * exp (- x)))"

definition age_to_eff_diameter :: "real \<Rightarrow> py_error + py_num" where
  "age_to_eff_diameter age =
     (if age > 22 then
        (case map_of adult_waist_circumferences_cm (round_to_decile age) of
           None \<Rightarrow> Inl KeyError
         | Some v \<Rightarrow> Inr (PyFloat v))
      else Inr (tg204 age))"

text \<open>\<^verbatim>\<open>d < v\<close> and \<^verbatim>\<open>d >= v\<close> for a float \<open>d\<close>: a complex number has no order.\<close>

fun py_lt :: "real \<Rightarrow> py_num \<Rightarrow> py_error + bool" where
  "py_lt d (PyFloat v) = Inr (d < v)"
| "py_lt d (PyComplex z) = Inl TypeError"

fun py_ge :: "real \<Rightarrow> py_num \<Rightarrow> py_error + bool" where
  "py_ge d (PyFloat v) = Inr (d \<ge> v)"
| "py_ge d (PyComplex z) = Inl TypeError"

text \<open>
  Lines 268-278. Each comparison calls \<^verbatim>\<open>age_to_eff_diameter\<close> afresh, and both
  operands of \<^verbatim>\<open>&\<close> are evaluated.
\<close>

definition between :: "real \<Rightarrow> real \<Rightarrow> real \<Rightarrow> py_error + bool" where
  "between diameter lo hi =
     bind (age_to_eff_diameter lo) (\<lambda>a. bind (py_ge diameter a) (\<lambda>g.
     bind (age_to_eff_diameter hi) (\<lambda>b. bind (py_lt diameter b) (\<lambda>l. Inr (g \<and> l)))))"

definition pediatric_subgroup :: "real \<Rightarrow> py_error + string" where
  "pediatric_subgroup diameter =
     bind (age_to_eff_diameter 1) (\<lambda>d1. bind (py_lt diameter d1) (\<lambda>newborn.
       if newborn then Inr ''newborn''
       else bind (between diameter 1 5) (\<lambda>infant.
         if infant then Inr ''infant''
         else bind (between diameter 5 12) (\<lambda>child.
           if child then Inr ''child''
           else bind (between diameter 12 22) (\<lambda>adolescent.
             if adolescent then Inr ''adolescent'' else Inr ''adult'')))))"

text \<open>Lines 280-285; a label outside the five falls off the end and gives \<^verbatim>\<open>None\<close>.\<close>

definition subgroup_to_age :: "string \<Rightarrow> real option" where
  "subgroup_to_age grp =
     (if grp = ''newborn'' then Some (1 / 12)
      else if grp = ''infant'' then Some 2
      else if grp = ''child'' then Some 12
      else if grp = ''adolescent'' then Some 21
      else if grp = ''adult'' then Some 39
      else None)"

subsection \<open>Python strings\<close>

definition digit_val :: "char \<Rightarrow> nat option" where
  "digit_val c = map_of (zip ''0123456789'' [0, 1, 2, 3, 4, 5, 6, 7, 8, 9]) c"

definition digit_char :: "nat \<Rightarrow> char" where
  "digit_char n = ''0123456789'' ! n"

definition is_digit :: "char \<Rightarrow> bool" where
  "is_digit c = (digit_val c \<noteq> None)"

text \<open>\<^verbatim>\<open>str(n)\<close> of an integer: decimal digits, with a minus sign when negative.\<close>

fun str_nat :: "nat \<Rightarrow> string" where
  "str_nat n = (if n < 10 then [digit_char n] else str_nat (n div 10) @ [digit_char (n mod 10)])"

declare str_nat.simps [simp del]

definition py_str :: "int \<Rightarrow> string" where
  "py_str i = (if i < 0 then CHR ''-'' # str_nat (nat (- i)) else str_nat (nat i))"

text \<open>The value of a string of decimal digits.\<close>

definition digits_val :: "string \<Rightarrow> nat" where
  "digits_val s = foldl (\<lambda>a c. 10 * a + (case digit_val c of None \<Rightarrow> 0 | Some d \<Rightarrow> d)) 0 s"

text \<open>
  \<^verbatim>\<open>str.strip()\<close>: whitespace off both ends. Among the first 256 code points
  \<^verbatim>\<open>str.isspace\<close> holds for these twelve.
\<close>

definition is_space :: "char \<Rightarrow> bool" where
  "is_space c = (c \<in> set [CHR '' '', CHR 0x09, CHR 0x0A, CHR 0x0B, CHR 0x0C, CHR 0x0D,
                           CHR 0x1C, CHR 0x1D, CHR 0x1E, CHR 0x1F, CHR 0x85, CHR 0xA0])"

definition py_strip :: "string \<Rightarrow> string" where
  "py_strip s = rev (dropWhile is_space (rev (dropWhile is_space s)))"

text \<open>
  The digits of an integer or float literal as \<^verbatim>\<open>int()\<close> and \<^verbatim>\<open>float()\<close> accept them:
  decimal digits, with single underscores allowed between two digits.
\<close>

fun no_double_underscore :: "string \<Rightarrow> bool" where
  "no_double_underscore (a # b # cs) =
     (\<not> (a = CHR ''_'' \<and> b = CHR ''_'') \<and> no_double_underscore (b # cs))"
| "no_double_underscore cs = True"

definition digit_group :: "string \<Rightarrow> bool" where
  "digit_group s =
     (s \<noteq> [] \<and> is_digit (hd s) \<and> is_digit (last s)
      \<and> list_all (\<lambda>c. is_digit c \<or> c = CHR ''_'') s
      \<and> no_double_underscore s)"

definition drop_sign :: "string \<Rightarrow> bool \<times> string" where
  "drop_sign s =
     (case s of
        [] \<Rightarrow> (False, [])
      | c # cs \<Rightarrow> if c = CHR ''-'' then (True, cs) else if c = CHR ''+'' then (False, cs)
                 else (False, s))"

text \<open>
  \<^verbatim>\<open>int(s)\<close> of a string: surrounding whitespace, an optional sign, decimal digits.
  ValueError otherwise.
\<close>

definition py_int :: "string \<Rightarrow> py_error + int" where
  "py_int s =
     (let (neg, ds) = drop_sign (py_strip s)
      in if digit_group ds
         then (let v = int (digits_val (filter is_digit ds)) in Inr (if neg then - v else v))
         else Inl ValueError)"

text \<open>
  \<^verbatim>\<open>s.split(sep)\<close> for a non-empty separator, scanning left to right; \<open>cur\<close> holds the
  piece being read. Every call of the source passes a non-empty literal separator.
\<close>

fun split_from :: "string \<Rightarrow> string \<Rightarrow> string \<Rightarrow> string list" where
  "split_from sep cur [] = [cur]"
| "split_from sep cur (x # xs) =
     (if sep \<noteq> [] \<and> prefix sep (x # xs)
      then cur # split_from sep [] (drop (length sep) (x # xs))
      else split_from sep (cur @ [x]) xs)"

definition py_split :: "string \<Rightarrow> string \<Rightarrow> string list" where
  "py_split sep s = split_from sep [] s"

text \<open>
  \<^verbatim>\<open>s.replace(old, new)\<close>: every occurrence of \<open>old\<close>, found left to right without
  overlap; an empty \<open>old\<close> matches before every character and at the end.
\<close>

fun py_replace :: "string \<Rightarrow> string \<Rightarrow> string \<Rightarrow> string" where
  "py_replace old new [] = (if old = [] then new else [])"
| "py_replace old new (x # xs) =
     (if old = [] then new @ x # py_replace old new xs
      else if prefix old (x # xs) then new @ py_replace old new (drop (length old) (x # xs))
      else x # py_replace old new xs)"

text \<open>\<^verbatim>\<open>xs[i]\<close> for an index that is not negative.\<close>

definition py_index :: "'a list \<Rightarrow> nat \<Rightarrow> py_error + 'a" where
  "py_index xs i = (if i < length xs then Inr (xs ! i) else Inl IndexError)"

text \<open>\<^verbatim>\<open>f'{n:03d}'\<close>: zero-padded to a width of three, the sign counted in the width.\<close>

definition zfill :: "nat \<Rightarrow> string \<Rightarrow> string" where
  "zfill w s = replicate (w - length s) (CHR ''0'') @ s"

definition fmt_03d :: "int \<Rightarrow> string" where
  "fmt_03d i = (if i < 0 then CHR ''-'' # zfill 2 (str_nat (nat (- i))) else zfill 3 (str_nat (nat i)))"

text \<open>\<^verbatim>\<open>s.endswith(t)\<close>.\<close>

definition endswith :: "string \<Rightarrow> string \<Rightarrow> bool" where
  "endswith s t = suffix t s"

subsection \<open>UID arithmetic\<close>

text \<open>
  Lines 174-176, and again 179-181, 193-195 and 197-199:
  \<^verbatim>\<open>end = uid.split('.')[-1]; new_end = str(int(end) + offset); uid.replace(end, new_end)\<close>.
\<close>

definition final_segment :: "string \<Rightarrow> string" where
  "final_segment uid = last (py_split ''.'' uid)"

definition bump_uid :: "string \<Rightarrow> int \<Rightarrow> py_error + string" where
  "bump_uid uid offset =
     (let end_seg = final_segment uid
      in bind (py_int end_seg) (\<lambda>n. Inr (py_replace end_seg (py_str (n + offset)) uid)))"

subsection \<open>Floats as text\<close>

text \<open>
  \<^verbatim>\<open>f'{patient_diameter/10}'\<close> for a diameter in whole millimetres: the float quotient
  prints with one decimal (\<^verbatim>\<open>112/10\<close> as \<^verbatim>\<open>11.2\<close>, \<^verbatim>\<open>200/10\<close> as \<^verbatim>\<open>20.0\<close>). This is
  what Python prints for a diameter below \<^verbatim>\<open>10**15\<close> in magnitude, where the decimal has
  at most 15 significant digits and so is the shortest text that reads back as the float;
  beyond that the float no longer holds every tenth and the text differs. The results
  that depend on this text are stated for diameters below that bound.
\<close>

definition str_tenths :: "int \<Rightarrow> string" where
  "str_tenths d =
     (if d < 0 then ''-'' else []) @ str_nat (nat \<bar>d\<bar> div 10) @ ''.'' @ str_nat (nat \<bar>d\<bar> mod 10)"

text \<open>
  \<^verbatim>\<open>float(s)\<close> on decimal text: surrounding whitespace, an optional sign, digits with an
  optional point; the result is the double nearest to the decimal. Exponents and the
  words \<^verbatim>\<open>inf\<close> and \<^verbatim>\<open>nan\<close>, which Python also reads, are outside this model and raise
  here.
\<close>

definition py_float :: "string \<Rightarrow> py_error + real" where
  "py_float s =
     (let (neg, body) = drop_sign (py_strip s);
          ip = takeWhile (\<lambda>c. c \<noteq> CHR ''.'') body;
          rest = dropWhile (\<lambda>c. c \<noteq> CHR ''.'') body;
          fp = tl rest;
          fd = filter is_digit fp;
          v = real (digits_val (filter is_digit ip)) + real (digits_val fd) / 10 ^ length fd
      in if (if rest = [] then digit_group ip
             else (ip = [] \<or> digit_group ip) \<and> (fp = [] \<or> digit_group fp)
                  \<and> \<not> (ip = [] \<and> fp = []))
         then Inr (round_double (if neg then - v else v))
         else Inl ValueError)"

text \<open>\<^verbatim>\<open>int(x)\<close> of a float: truncation towards zero.\<close>

definition py_trunc :: "real \<Rightarrow> int" where
  "py_trunc x = (if 0 \<le> x then \<lfloor>x\<rfloor> else \<lceil>x\<rceil>)"

subsection \<open>Paths\<close>

text \<open>
  A \<^verbatim>\<open>pathlib.Path\<close> that is absolute: the list of its parts below the root. Joining
  parses the right operand as pathlib does: empty parts and \<^verbatim>\<open>.\<close> are dropped, and an
  operand that starts with a slash replaces the path. (A root of exactly two slashes,
  which POSIX keeps apart, is not modelled.)
\<close>

type_synonym path = "string list"

definition path_parts :: "string \<Rightarrow> string list" where
  "path_parts s = filter (\<lambda>c. c \<noteq> [] \<and> c \<noteq> ''.'') (py_split ''/'' s)"

definition path_join :: "path \<Rightarrow> string \<Rightarrow> path" where
  "path_join p s = (if s \<noteq> [] \<and> hd s = CHR ''/'' then path_parts s else p @ path_parts s)"

definition path_str :: "path \<Rightarrow> string" where
  "path_str p = (if p = [] then ''/'' else concat (map (\<lambda>c. CHR ''/'' # c) p))"

definition path_name :: "path \<Rightarrow> string" where
  "path_name p = (if p = [] then [] else last p)"

definition path_parent :: "path \<Rightarrow> path" where
  "path_parent p = butlast p"

text \<open>
  \<^verbatim>\<open>suffix\<close> and \<^verbatim>\<open>stem\<close> of a file name: with \<^verbatim>\<open>i = name.rfind('.')\<close>, the suffix is
  \<^verbatim>\<open>name[i:]\<close> and the stem \<^verbatim>\<open>name[:i]\<close> when \<^verbatim>\<open>0 < i < len(name) - 1\<close>; otherwise
  the suffix is empty and the stem is the name. \<open>after_dot\<close> counts the characters
  behind the last point.
\<close>

definition after_dot :: "string \<Rightarrow> nat" where
  "after_dot name = length (takeWhile (\<lambda>c. c \<noteq> CHR ''.'') (rev name))"

definition has_suffix :: "string \<Rightarrow> bool" where
  "has_suffix name =
     (CHR ''.'' \<in> set name \<and> 0 < after_dot name \<and> after_dot name + 1 < length name)"

definition name_suffix :: "string \<Rightarrow> string" where
  "name_suffix name =
     (if has_suffix name then drop (length name - 1 - after_dot name) name else [])"

definition name_stem :: "string \<Rightarrow> string" where
  "name_stem name =
     (if has_suffix name then take (length name - 1 - after_dot name) name else name)"

subsection \<open>Volumes, data sets and the Parameter Set\<close>

text \<open>
  A numpy volume: a single 2D slice or a stack of slices; \<open>'px\<close> is the type of a slice.
  \<^verbatim>\<open>vol[None]\<close> turns a 2D array into a stack of one.
\<close>

datatype 'px volume = Vol2 'px | Vol3 "'px list"

fun ndim :: "'px volume \<Rightarrow> nat" where
  "ndim (Vol2 s) = 2"
| "ndim (Vol3 ss) = 3"

fun add_axis :: "'px volume \<Rightarrow> 'px volume" where
  "add_axis (Vol2 s) = Vol3 [s]"
| "add_axis (Vol3 ss) = Vol3 ss"

fun slices :: "'px volume \<Rightarrow> 'px list" where
  "slices (Vol2 s) = [s]"
| "slices (Vol3 ss) = ss"

text \<open>
  The header fields of a DICOM data set that carry identity, naming and the diameter
  comment, with the pixel spacing and the slice. The dates, the constant scanner
  fields, the slice geometry, the study description (which embeds the text of the float
  \<^verbatim>\<open>I0\<close>) and the rebiasing of the pixels are not modelled.
\<close>

record 'px dicom =
  PatientName :: string
  SeriesNumber :: int
  PatientAge :: string
  PatientID :: string
  ImageComments :: string
  ReconstructionDiameter :: real
  Exposure :: real
  PixelSpacing :: real
  StudyID :: string
  SeriesInstanceUID :: string
  StudyInstanceUID :: string
  AcquisitionNumber :: int
  InstanceNumber :: int
  SOPInstanceUID :: string
  MediaStorageSOPInstanceUID :: string
  PixelData :: "'px option"

text \<open>
  The object \<^verbatim>\<open>CTobj\<close>. The patient diameter is in whole millimetres. The series name
  (whose default embeds the text of \<^verbatim>\<open>I0\<close>) and \<^verbatim>\<open>framework\<close> take no part in what
  follows and are left out.
\<close>

record 'px CTobj =
  ct_phantom :: string
  ct_patient_diameter :: int
  ct_reference_diameter :: real
  ct_reference_fov :: real
  ct_I0 :: real
  ct_ndetectors :: int
  ct_nangles :: int
  ct_detector_size :: real
  ct_sid :: real
  ct_sdd :: real
  ct_detector_offset :: real
  ct_down_sampling :: int
  ct_has_bowtie :: bool
  ct_add_noise :: bool
  ct_aec :: bool
  ct_matrix_size :: int
  ct_fov :: real
  ct_kernel :: string
  ct_nsims :: int
  ct_lesion_diameter :: lesion
  ct_age :: int
  ct_patientname :: string
  ct_patientid :: int
  ct_studyname :: string
  ct_studyid :: int
  ct_seriesid :: int
  ct_recon :: "'px volume option"
  ct_projections :: "'px volume option"
  ct_groundtruth :: "'px volume option"

text \<open>The arguments of \<^verbatim>\<open>CTobj.__init__\<close> (lines 38-42).\<close>

record init_args =
  ia_phantom :: string
  ia_patient_diameter :: int
  ia_reference_diameter :: real
  ia_reference_fov :: real
  ia_I0 :: real
  ia_ndetectors :: int
  ia_nangles :: int
  ia_detector_size :: real
  ia_sid :: real
  ia_sdd :: real
  ia_detector_offset :: real
  ia_down_sampling :: int
  ia_has_bowtie :: bool
  ia_add_noise :: bool
  ia_aec_on :: bool
  ia_matrix_size :: int
  ia_fov :: real
  ia_fbp_kernel :: string
  ia_nsims :: int
  ia_lesion_diameter :: lesion
  ia_age :: int
  ia_patientname :: string
  ia_patientid :: int
  ia_studyname :: string
  ia_studyid :: int
  ia_seriesid :: int

definition default_init_args :: init_args where
  "default_init_args = \<lparr> ia_phantom = ''CCT189'', ia_patient_diameter = 200,
     ia_reference_diameter = 200, ia_reference_fov = 340, ia_I0 = 300000,
     ia_ndetectors = 900, ia_nangles = 580, ia_detector_size = 1, ia_sid = 595,
     ia_sdd = 10856 / 10, ia_detector_offset = 5 / 4, ia_down_sampling = 1,
     ia_has_bowtie = False, ia_add_noise = True, ia_aec_on = True, ia_matrix_size = 512,
     ia_fov = 340, ia_fbp_kernel = ''hanning,2.05'', ia_nsims = 1,
     ia_lesion_diameter = LBool False, ia_age = 0, ia_patientname = [], ia_patientid = 0,
     ia_studyname = [], ia_studyid = 0, ia_seriesid = 0 \<rparr>"

text \<open>\<^verbatim>\<open>a or b\<close> on strings: the empty string is false.\<close>

definition str_or :: "string \<Rightarrow> string \<Rightarrow> string" where
  "str_or a b = (if a = [] then b else a)"

text \<open>\<^verbatim>\<open>CTobj.__init__\<close>, lines 45-79.\<close>

definition CTobj_init :: "init_args \<Rightarrow> py_error + 'px CTobj" where
  "CTobj_init a =
     bind (init_phantom (ia_phantom a)) (\<lambda>phantom.
       let patientname = str_or (ia_patientname a)
                           (str_tenths (ia_patient_diameter a) @ '' cm '' @ phantom)
       in Inr \<lparr> ct_phantom = phantom, ct_patient_diameter = ia_patient_diameter a,
            ct_reference_diameter = ia_reference_diameter a,
            ct_reference_fov = ia_reference_fov a, ct_I0 = ia_I0 a,
            ct_ndetectors = ia_ndetectors a, ct_nangles = ia_nangles a,
            ct_detector_size = ia_detector_size a, ct_sid = ia_sid a, ct_sdd = ia_sdd a,
            ct_detector_offset = ia_detector_offset a,
            ct_down_sampling = ia_down_sampling a, ct_has_bowtie = ia_has_bowtie a,
            ct_add_noise = ia_add_noise a, ct_aec = ia_aec_on a,
            ct_matrix_size = ia_matrix_size a, ct_fov = ia_fov a,
            ct_kernel = ia_fbp_kernel a, ct_nsims = ia_nsims a,
            ct_lesion_diameter = ia_lesion_diameter a, ct_age = ia_age a,
            ct_patientname = patientname, ct_patientid = ia_patientid a,
            ct_studyname = str_or (ia_studyname a) patientname,
            ct_studyid = ia_studyid a, ct_seriesid = ia_seriesid a,
            ct_recon = None, ct_projections = None, ct_groundtruth = None \<rparr>)"

text \<open>What the simulator returns: the dictionary read at lines 121-123.\<close>

record 'px sim_result =
  res_recon :: "'px volume"
  res_sinogram_noiseless :: "'px volume"
  res_ground_truth :: "'px volume"

text \<open>
  \<^verbatim>\<open>CTobj.run\<close>, lines 97-124: \<^verbatim>\<open>mirt_sim\<close> with the stored parameters; \<open>sim\<close> is the
  Octave function behind the two entry points.
\<close>

definition run ::
  "(octave_call \<Rightarrow> py_error + 'px sim_result) \<Rightarrow> 'px CTobj \<Rightarrow> bool \<Rightarrow> py_error + 'px CTobj"
where
  "run sim ct verbose =
     bind (mirt_sim \<lparr> sa_phantom = ct_phantom ct,
             sa_patient_diameter = of_int (ct_patient_diameter ct),
             sa_reference_diameter = ct_reference_diameter ct,
             sa_reference_fov = ct_reference_fov ct, sa_I0 = ct_I0 ct,
             sa_nb = ct_ndetectors ct, sa_na = ct_nangles ct, sa_ds = ct_detector_size ct,
             sa_sid = ct_sid ct, sa_sdd = ct_sdd ct, sa_offset_s = ct_detector_offset ct,
             sa_down = ct_down_sampling ct, sa_has_bowtie = ct_has_bowtie ct,
             sa_add_noise = ct_add_noise ct, sa_aec_on = ct_aec ct,
             sa_nx = ct_matrix_size ct, sa_fov = ct_fov ct, sa_fbp_kernel = ct_kernel ct,
             sa_nsims = ct_nsims ct, sa_lesion_diameter = ct_lesion_diameter ct,
             sa_verbose = verbose \<rparr>) (\<lambda>call.
     bind (sim call) (\<lambda>resdict.
       Inr (ct\<lparr> ct_recon := Some (res_recon resdict),
                ct_projections := Some (res_sinogram_noiseless resdict),
                ct_groundtruth := Some (res_ground_truth resdict) \<rparr>)))"

subsection \<open>The image persister \<^verbatim>\<open>write_to_dicom\<close>\<close>

text \<open>
  The file system is the list of the writes made, oldest first. When a function raises,
  the model returns the exception alone: the files written before it are not reported.
\<close>

type_synonym 'px filesystem = "(path \<times> 'px dicom) list"

text \<open>
  One pass of the loop of lines 190-209, lines 191-206: the data set \<open>ds\<close> is the one
  object that every pass updates, so a pass reads the UIDs the pass before left.
\<close>

definition slice_pass :: "'px dicom \<Rightarrow> int \<Rightarrow> int \<Rightarrow> nat \<Rightarrow> 'px \<Rightarrow> py_error + 'px dicom" where
  "slice_pass ds studyid seriesid slice_idx array_slice =
     bind (bump_uid (SOPInstanceUID ds) (int slice_idx + studyid + seriesid)) (\<lambda>sop.
     bind (bump_uid (MediaStorageSOPInstanceUID ds) (int slice_idx + studyid + seriesid))
       (\<lambda>media.
       Inr (ds\<lparr> InstanceNumber := int slice_idx + 1, SOPInstanceUID := sop,
                MediaStorageSOPInstanceUID := media, PixelData := Some array_slice \<rparr>)))"

text \<open>Line 207: the name of the file of a slice.\<close>

definition dcm_fname :: "path \<Rightarrow> nat \<Rightarrow> nat \<Rightarrow> path" where
  "dcm_fname fname nslices slice_idx =
     (if nslices > 1
      then path_join (path_parent fname)
             (name_stem (path_name fname) @ ''_'' @ fmt_03d (int slice_idx)
              @ name_suffix (path_name fname))
      else fname)"

text \<open>The loop of lines 190-209 from slice \<open>slice_idx\<close> on.\<close>

fun write_slices ::
  "'px dicom \<Rightarrow> path \<Rightarrow> nat \<Rightarrow> int \<Rightarrow> int \<Rightarrow> nat \<Rightarrow> 'px list \<Rightarrow> path list \<Rightarrow> 'px filesystem
   \<Rightarrow> py_error + (path list \<times> 'px filesystem)"
where
  "write_slices ds fname nslices studyid seriesid slice_idx [] fnames fs = Inr (fnames, fs)"
| "write_slices ds fname nslices studyid seriesid slice_idx (array_slice # rest) fnames fs =
     bind (slice_pass ds studyid seriesid slice_idx array_slice) (\<lambda>ds'.
       write_slices ds' fname nslices studyid seriesid (Suc slice_idx) rest
         (fnames @ [dcm_fname fname nslices slice_idx])
         (fs @ [(dcm_fname fname nslices slice_idx, ds')]))"

text \<open>
  Lines 133-182 of \<^verbatim>\<open>write_to_dicom\<close>: the header. \<open>template\<close> is the data set read
  from pydicom's \<^verbatim>\<open>CT_small.dcm\<close>, read afresh by every call. The result is the object
  (whose \<^verbatim>\<open>recon\<close> may have gained an axis), the number of slices of \<^verbatim>\<open>recon\<close> and the
  data set as the slice loop finds it.
\<close>

definition dicom_header ::
  "'px dicom \<Rightarrow> 'px CTobj \<Rightarrow> py_error + ('px CTobj \<times> nat \<times> 'px dicom)"
where
  "dicom_header template ct =
     (let ds = template\<lparr> PatientName := ct_patientname ct, SeriesNumber := ct_seriesid ct,
                 PatientAge := fmt_03d (ct_age ct) @ ''Y'',
                 PatientID := fmt_03d (ct_patientid ct),
                 ImageComments :=
                   ''effctive diameter [cm]: '' @ str_tenths (ct_patient_diameter ct),
                 ReconstructionDiameter := ct_fov ct, Exposure := ct_I0 ct \<rparr>
      in case ct_recon ct of
           None \<Rightarrow> Inl AttributeError
         | Some r \<Rightarrow>
             let recon = (if ndim r = 2 then add_axis r else r);
                 ct = ct\<lparr> ct_recon := Some recon \<rparr>;
                 nslices = length (slices recon)
             in if int nslices \<noteq> ct_nsims ct then Inl AssertionError
                else if ct_matrix_size ct = 0 then Inl ZeroDivisionError
                else
                  let ds = ds\<lparr> PixelSpacing := ct_fov ct / of_int (ct_matrix_size ct),
                               StudyID := py_str (ct_studyid ct) \<rparr>
                  in bind (bump_uid (SeriesInstanceUID ds) (ct_studyid ct)) (\<lambda>series.
                     bind (bump_uid (StudyInstanceUID ds) (ct_studyid ct)) (\<lambda>study.
                       Inr (ct, nslices,
                            ds\<lparr> SeriesInstanceUID := series, StudyInstanceUID := study,
                                AcquisitionNumber := ct_studyid ct \<rparr>))))"

text \<open>
  \<^verbatim>\<open>write_to_dicom\<close>, lines 133-210: the header, then the slices of the ground truth
  or of the reconstruction. The result is the object, the list returned and the file
  system.
\<close>

definition write_to_dicom ::
  "'px dicom \<Rightarrow> 'px CTobj \<Rightarrow> path \<Rightarrow> bool \<Rightarrow> 'px filesystem
   \<Rightarrow> py_error + ('px CTobj \<times> path list \<times> 'px filesystem)"
where
  "write_to_dicom template ct fname groundtruth fs =
     bind (dicom_header template ct) (\<lambda>(ct, nslices, ds).
       case (if groundtruth then ct_groundtruth ct else ct_recon ct) of
         None \<Rightarrow> Inl AttributeError
       | Some v \<Rightarrow>
           let vol = (if ndim v = 2 then add_axis v else v)
           in bind (write_slices ds fname nslices (ct_studyid ct) (ct_seriesid ct) 0
                      (slices vol) [] fs)
                (\<lambda>(fnames, fs'). Inr (ct, fnames, fs')))"

subsection \<open>The metadata extractor \<^verbatim>\<open>dicom_meta_to_dataframe\<close>\<close>

text \<open>\<^verbatim>\<open>pydicom.read_file\<close>: the data set last written under the path.\<close>

definition read_file :: "'px filesystem \<Rightarrow> path \<Rightarrow> py_error + 'px dicom" where
  "read_file fs fname =
     (case map_of (rev fs) fname of None \<Rightarrow> Inl FileNotFoundError | Some d \<Rightarrow> Inr d)"

text \<open>
  One row of the metadata table. The columns that copy a header field unchanged or are
  constant (study name, scanner, recon, kernel, FOV) are left out.
\<close>

record meta_row =
  md_Name :: string
  md_PatientID :: string
  md_StudyID :: string
  md_series :: string
  md_effective_diameter :: real
  md_age :: "real option"
  md_pediatric_subgroup :: string
  md_phantom :: string
  md_Dose :: "int option"
  md_repeat :: int
  md_file :: path

text \<open>
  Lines 292-312. The subgroup is computed from the literal \<^verbatim>\<open>18.2\<close> (line 294); the
  diameter read from the file at line 298 goes to its own column only.
\<close>

definition dicom_meta_to_dataframe :: "'px filesystem \<Rightarrow> path \<Rightarrow> py_error + meta_row" where
  "dicom_meta_to_dataframe fs fname =
     bind (read_file fs fname) (\<lambda>dcm.
     bind (pediatric_subgroup (182 / 10)) (\<lambda>subgroup.
       let age_est = subgroup_to_age subgroup
       in bind (py_index (py_split ''cm'' (PatientName dcm)) 1) (\<lambda>ph.
          let phantom = py_strip ph
          in bind (py_index (py_split '':'' (ImageComments dcm)) 1) (\<lambda>dtext.
             bind (py_float dtext) (\<lambda>diameter.
               let stem = name_stem (path_name fname);
                   row = \<lparr> md_Name = PatientName dcm, md_PatientID = PatientID dcm,
                           md_StudyID = StudyID dcm, md_series = ''simulation'',
                           md_effective_diameter = diameter, md_age = age_est,
                           md_pediatric_subgroup = subgroup, md_phantom = phantom,
                           md_Dose = None, md_repeat = 0, md_file = fname \<rparr>
               in if endswith stem ''noisefree'' then Inr (row\<lparr> md_series := ''noise free'' \<rparr>)
                  else if endswith stem ''groundtruth''
                  then Inr (row\<lparr> md_series := ''ground truth'' \<rparr>)
                  else
                    bind (py_index (py_split ''dose_'' (path_str fname)) 1) (\<lambda>after.
                    bind (py_index (py_split ''/'' after) 0) (\<lambda>dtxt.
                    bind (py_int dtxt) (\<lambda>dose.
                    bind (if length (py_split ''_'' stem) > 1
                          then bind (py_index (py_split ''_'' stem) 1) py_int
                          else Inr 0) (\<lambda>repeat.
                      Inr (row\<lparr> md_Dose := Some dose, md_repeat := repeat \<rparr>))))))))))"

subsection \<open>The batch orchestrator \<^verbatim>\<open>run_batch_sim\<close>\<close>

text \<open>
  The keyword arguments that \<^verbatim>\<open>run_batch_sim\<close> hands on to \<^verbatim>\<open>CTobj\<close>: those
  constructor arguments that line 347 does not pass itself and that are not parameters
  of \<^verbatim>\<open>run_batch_sim\<close>. \<open>None\<close> stands for a keyword that is not given.
\<close>

record kwargs =
  kw_phantom :: "string option"
  kw_reference_diameter :: "real option"
  kw_ndetectors :: "int option"
  kw_nangles :: "int option"
  kw_detector_size :: "real option"
  kw_sid :: "real option"
  kw_sdd :: "real option"
  kw_detector_offset :: "real option"
  kw_has_bowtie :: "bool option"
  kw_add_noise :: "bool option"
  kw_aec_on :: "bool option"
  kw_matrix_size :: "int option"
  kw_fov :: "real option"
  kw_nsims :: "int option"
  kw_lesion_diameter :: "lesion option"
  kw_age :: "int option"
  kw_seriesid :: "int option"

definition no_kwargs :: kwargs where
  "no_kwargs = \<lparr> kw_phantom = None, kw_reference_diameter = None, kw_ndetectors = None,
     kw_nangles = None, kw_detector_size = None, kw_sid = None, kw_sdd = None,
     kw_detector_offset = None, kw_has_bowtie = None, kw_add_noise = None,
     kw_aec_on = None, kw_matrix_size = None, kw_fov = None, kw_nsims = None,
     kw_lesion_diameter = None, kw_age = None, kw_seriesid = None \<rparr>"

definition dflt :: "'a \<Rightarrow> 'a option \<Rightarrow> 'a" where
  "dflt d v = (case v of None \<Rightarrow> d | Some x \<Rightarrow> x)"

text \<open>
  The constructor call of lines 347-348. The loop variable \<^verbatim>\<open>phantom\<close> is not among
  the arguments: the phantom of the object is the keyword argument, or the default.
\<close>

definition batch_init_args ::
  "kwargs \<Rightarrow> int \<Rightarrow> real \<Rightarrow> string \<Rightarrow> int \<Rightarrow> string \<Rightarrow> int \<Rightarrow> init_args"
where
  "batch_init_args kw patient_diameter dose patientname patientid studyname studyid =
     \<lparr> ia_phantom = dflt ''CCT189'' (kw_phantom kw),
       ia_patient_diameter = patient_diameter,
       ia_reference_diameter = dflt 200 (kw_reference_diameter kw),
       ia_reference_fov = 340,
       ia_I0 = dose,
       ia_ndetectors = dflt 900 (kw_ndetectors kw),
       ia_nangles = dflt 580 (kw_nangles kw),
       ia_detector_size = dflt 1 (kw_detector_size kw),
       ia_sid = dflt 595 (kw_sid kw),
       ia_sdd = dflt (10856 / 10) (kw_sdd kw),
       ia_detector_offset = dflt (5 / 4) (kw_detector_offset kw),
       ia_down_sampling = 1,
       ia_has_bowtie = dflt False (kw_has_bowtie kw),
       ia_add_noise = dflt True (kw_add_noise kw),
       ia_aec_on = dflt True (kw_aec_on kw),
       ia_matrix_size = dflt 512 (kw_matrix_size kw),
       ia_fov = dflt 340 (kw_fov kw),
       ia_fbp_kernel = ''hanning,2.05'',
       ia_nsims = dflt 1 (kw_nsims kw),
       ia_lesion_diameter = dflt (LBool False) (kw_lesion_diameter kw),
       ia_age = dflt 0 (kw_age kw),
       ia_patientname = patientname,
       ia_patientid = patientid,
       ia_studyname = studyname,
       ia_studyid = studyid,
       ia_seriesid = dflt 0 (kw_seriesid kw) \<rparr>"

text \<open>\<^verbatim>\<open>dose_level.max()\<close> of a non-empty array.\<close>

definition py_max :: "real list \<Rightarrow> real" where
  "py_max xs = fold max (tl xs) (hd xs)"

text \<open>
  \<^verbatim>\<open>int(rel_dose)\<close> with \<^verbatim>\<open>rel_dose = 100*dose/dose_level.max()\<close> (lines 345-346 and
  350): a float product, then a float quotient, then truncation. Dividing numpy floats
  by zero gives \<^verbatim>\<open>nan\<close> or an infinity, which \<^verbatim>\<open>int\<close> refuses with ValueError and
  OverflowError.
\<close>

definition rel_dose :: "real \<Rightarrow> real \<Rightarrow> real" where
  "rel_dose dose mx = float_div (float_mul 100 dose) mx"

definition rel_dose_int :: "real \<Rightarrow> real \<Rightarrow> py_error + int" where
  "rel_dose_int dose mx =
     (if mx = 0 then (if float_mul 100 dose = 0 then Inl ValueError else Inl OverflowError)
      else Inr (py_trunc (rel_dose dose mx)))"

record batch_env =
  be_image_directory :: path
  be_fbp_kernel :: string
  be_verbose :: bool
  be_kwargs :: kwargs
  be_dose_level :: "real list"

record 'px batch_state =
  bs_ct :: "'px CTobj option"
  bs_fnames :: "path list"
  bs_fs :: "'px filesystem"

text \<open>The directory of a (phantom, diameter) pair and the file of a dose level, line 350.\<close>

definition diameter_dir :: "batch_env \<Rightarrow> string \<Rightarrow> int \<Rightarrow> path" where
  "diameter_dir env phantom patient_diameter =
     path_join (path_join (be_image_directory env) phantom)
       (''diameter'' @ py_str patient_diameter @ ''mm'')"

definition recon_dir :: "string \<Rightarrow> string" where
  "recon_dir fbp_kernel = ''fbp'' @ '' '' @ py_replace ''.'' [] (py_replace '','' [] fbp_kernel)"

definition dose_fname :: "batch_env \<Rightarrow> string \<Rightarrow> int \<Rightarrow> int \<Rightarrow> string \<Rightarrow> path" where
  "dose_fname env phantom patient_diameter pct ct_name =
     path_join (path_join (path_join (diameter_dir env phantom patient_diameter)
        (''dose_'' @ fmt_03d pct)) (recon_dir (be_fbp_kernel env))) (ct_name @ ''.dcm'')"

text \<open>The innermost loop, lines 344-351, from study index \<open>studyid\<close> on.\<close>

fun dose_loop ::
  "(octave_call \<Rightarrow> py_error + 'px sim_result) \<Rightarrow> 'px dicom \<Rightarrow> batch_env \<Rightarrow> string \<Rightarrow> int \<Rightarrow> int
   \<Rightarrow> string \<Rightarrow> int \<Rightarrow> real list \<Rightarrow> 'px batch_state \<Rightarrow> py_error + 'px batch_state"
where
  "dose_loop sim template env phantom patientid patient_diameter patientname studyid [] st =
     Inr st"
| "dose_loop sim template env phantom patientid patient_diameter patientname studyid
     (dose # doses) st =
     bind (rel_dose_int dose (py_max (be_dose_level env))) (\<lambda>pct.
       let studyname = py_str pct @ ''% dose''
       in bind (CTobj_init (batch_init_args (be_kwargs env) patient_diameter dose patientname
                  patientid studyname studyid)) (\<lambda>ct.
          bind (run sim ct (be_verbose env)) (\<lambda>ct.
          bind (write_to_dicom template ct
                  (dose_fname env phantom patient_diameter pct (ct_patientname ct)) False
                  (bs_fs st)) (\<lambda>(ct, fnames, fs).
            dose_loop sim template env phantom patientid patient_diameter patientname
              (studyid + 1) doses
              \<lparr> bs_ct = Some ct, bs_fnames = bs_fnames st @ fnames, bs_fs = fs \<rparr>))))"

text \<open>
  Lines 352-360, after the dose loop of a pair: the noise-free and the ground-truth
  file, from the object the loop left in \<^verbatim>\<open>ct\<close>.
\<close>

definition variants ::
  "(octave_call \<Rightarrow> py_error + 'px sim_result) \<Rightarrow> 'px dicom \<Rightarrow> batch_env \<Rightarrow> string \<Rightarrow> int
   \<Rightarrow> 'px batch_state \<Rightarrow> py_error + 'px batch_state"
where
  "variants sim template env phantom patient_diameter st =
     (case bs_ct st of
        None \<Rightarrow> Inl UnboundLocalError
      | Some ct0 \<Rightarrow>
          bind (run sim (ct0\<lparr> ct_nsims := 1, ct_add_noise := False \<rparr>) (be_verbose env)) (\<lambda>ct.
          bind (write_to_dicom template ct
                  (path_join (diameter_dir env phantom patient_diameter)
                     (ct_patientname ct @ ''_noisefree.dcm'')) False (bs_fs st))
            (\<lambda>(ct, fnames1, fs1).
          bind (write_to_dicom template ct
                  (path_join (diameter_dir env phantom patient_diameter)
                     (ct_patientname ct @ ''_groundtruth.dcm'')) True fs1)
            (\<lambda>(ct, fnames2, fs2).
              Inr \<lparr> bs_ct = Some ct, bs_fnames = bs_fnames st @ fnames1 @ fnames2,
                    bs_fs = fs2 \<rparr>))))"

text \<open>The loop over the diameters, lines 342-360, from patient index \<open>patientid\<close> on.\<close>

fun diameter_loop ::
  "(octave_call \<Rightarrow> py_error + 'px sim_result) \<Rightarrow> 'px dicom \<Rightarrow> batch_env \<Rightarrow> string \<Rightarrow> int
   \<Rightarrow> int list \<Rightarrow> 'px batch_state \<Rightarrow> py_error + 'px batch_state"
where
  "diameter_loop sim template env phantom patientid [] st = Inr st"
| "diameter_loop sim template env phantom patientid (patient_diameter # ds) st =
     bind (dose_loop sim template env phantom patientid patient_diameter
             (str_tenths patient_diameter @ '' cm '' @ phantom) 0 (be_dose_level env) st)
       (\<lambda>st.
     bind (variants sim template env phantom patient_diameter st) (\<lambda>st.
       diameter_loop sim template env phantom (patientid + 1) ds st))"

text \<open>The loop over the phantoms, lines 340-360.\<close>

fun phantom_loop ::
  "(octave_call \<Rightarrow> py_error + 'px sim_result) \<Rightarrow> 'px dicom \<Rightarrow> batch_env \<Rightarrow> int list
   \<Rightarrow> string list \<Rightarrow> 'px batch_state \<Rightarrow> py_error + 'px batch_state"
where
  "phantom_loop sim template env diameter [] st = Inr st"
| "phantom_loop sim template env diameter (phantom # phantoms) st =
     bind (diameter_loop sim template env phantom 0 diameter st) (\<lambda>st.
       phantom_loop sim template env diameter phantoms st)"

text \<open>\<^verbatim>\<open>list(map(dicom_meta_to_dataframe, fnames))\<close>: the first exception ends the map.\<close>

fun map_raise :: "('a \<Rightarrow> py_error + 'b) \<Rightarrow> 'a list \<Rightarrow> py_error + 'b list" where
  "map_raise f [] = Inr []"
| "map_raise f (x # xs) = bind (f x) (\<lambda>y. bind (map_raise f xs) (\<lambda>ys. Inr (y # ys)))"

text \<open>
  \<^verbatim>\<open>run_batch_sim\<close>, lines 332-363, on the directory as \<^verbatim>\<open>os.path.abspath\<close> returns it.
  Line 336 multiplies the dose levels by the full dose, a float product each. The
  files are written into an empty file system; \<^verbatim>\<open>pd.concat\<close> raises ValueError on
  an empty list of frames. The result is the table, the list of files and the file
  system (the table is also written to \<^verbatim>\<open>metadata.csv\<close>, which is not modelled).
\<close>

definition run_batch_files ::
  "(octave_call \<Rightarrow> py_error + 'px sim_result) \<Rightarrow> 'px dicom \<Rightarrow> path \<Rightarrow> string list \<Rightarrow> int list
   \<Rightarrow> real \<Rightarrow> real list \<Rightarrow> string \<Rightarrow> bool \<Rightarrow> kwargs \<Rightarrow> py_error + 'px batch_state"
where
  "run_batch_files sim template image_directory model diameter full_dose dose_level
     fbp_kernel verbose kw =
     phantom_loop sim template
       \<lparr> be_image_directory = image_directory, be_fbp_kernel = fbp_kernel,
         be_verbose = verbose, be_kwargs = kw,
         be_dose_level = map (\<lambda>l. float_mul full_dose l) dose_level \<rparr>
       diameter model \<lparr> bs_ct = None, bs_fnames = [], bs_fs = [] \<rparr>"

definition run_batch_sim ::
  "(octave_call \<Rightarrow> py_error + 'px sim_result) \<Rightarrow> 'px dicom \<Rightarrow> path \<Rightarrow> string list \<Rightarrow> int list
   \<Rightarrow> real \<Rightarrow> real list \<Rightarrow> string \<Rightarrow> bool \<Rightarrow> kwargs
   \<Rightarrow> py_error + (meta_row list \<times> path list \<times> 'px filesystem)"
where
  "run_batch_sim sim template image_directory model diameter full_dose dose_level
     fbp_kernel verbose kw =
     bind (run_batch_files sim template image_directory model diameter full_dose dose_level
             fbp_kernel verbose kw) (\<lambda>st.
     bind (map_raise (dicom_meta_to_dataframe (bs_fs st)) (bs_fnames st)) (\<lambda>rows.
       if rows = [] then Inl ValueError else Inr (rows, bs_fnames st, bs_fs st)))"

subsection \<open>Example collaborators\<close>

text \<open>
  The identity fields of pydicom's test file \<^verbatim>\<open>CT_small.dcm\<close>, which line 133 reads as
  the template. The file belongs to pydicom, not to the repository; the general
  results below hold for every template, and this one serves the concrete runs.
\<close>

definition CT_small :: "nat dicom" where
  "CT_small = \<lparr> PatientName = ''CompressedSamples^CT1'', SeriesNumber = 1,
     PatientAge = ''000Y'', PatientID = ''1CT1'', ImageComments = [],
     ReconstructionDiameter = 3386716 / 10000, Exposure = 0, PixelSpacing = 661468 / 1000000,
     StudyID = ''1CT1'',
     SeriesInstanceUID = ''1.3.6.1.4.1.5962.1.3.1.1.20040119072730.12322'',
     StudyInstanceUID = ''1.3.6.1.4.1.5962.1.2.1.20040119072730.12322'',
     AcquisitionNumber = 2, InstanceNumber = 1,
     SOPInstanceUID = ''1.3.6.1.4.1.5962.1.1.1.1.1.20040119072730.12322'',
     MediaStorageSOPInstanceUID = ''1.3.6.1.4.1.5962.1.1.1.1.1.20040119072730.12322'',
     PixelData = None \<rparr>"

text \<open>
  A stand-in for the Octave simulator, for the concrete runs: a 2D reconstruction for
  one simulation, a stack of \<^verbatim>\<open>nsims\<close> slices otherwise, and a 2D ground truth. The
  slices are numbered instead of holding pixels.
\<close>

definition example_sim :: "octave_call \<Rightarrow> py_error + nat sim_result" where
  "example_sim c =
     Inr \<lparr> res_recon = (if oc_nsims c = 1 then Vol2 0 else Vol3 [0..<nat (oc_nsims c)]),
           res_sinogram_noiseless = Vol2 0, res_ground_truth = Vol2 0 \<rparr>"

text \<open>
  \<^verbatim>\<open>CTobj(studyid=..., seriesid=..., nsims=...).run()\<close> with the stand-in simulator.
\<close>

definition example_ct :: "int \<Rightarrow> int \<Rightarrow> int \<Rightarrow> py_error + nat CTobj" where
  "example_ct studyid seriesid nsims =
     bind (CTobj_init (default_init_args\<lparr> ia_studyid := studyid, ia_seriesid := seriesid,
                                          ia_nsims := nsims \<rparr>))
       (\<lambda>ct. run example_sim ct False)"

section \<open>Properties\<close>

subsection \<open>Field of view of the simulation\<close>

lemma aliases_not_options: "p \<in> set aliases \<Longrightarrow> py_upper p \<notin> set options"
  by (auto simp: aliases_def options_def py_upper_def upper_char_def)

lemma mirt_sim_Inr_fov:
  "mirt_sim a = Inr c \<Longrightarrow>
   oc_fov c = mirt_fov (sa_patient_diameter a) (sa_reference_diameter a) (sa_reference_fov a)"
  by (auto simp: mirt_sim_def Let_def split: sum.splits)

lemma round_double_at:
  assumes "2 powr of_int e \<le> \<bar>x\<bar>" "\<bar>x\<bar> < 2 powr (of_int e + 1)"
  shows "round_double x = 2 powr (of_int e - 52) * of_int (round_half_even (x / 2 powr (of_int e - 52)))"
proof -
  have p: "0 < \<bar>x\<bar>" using assms(1) by (smt (verit) powr_gt_zero)
  have "\<lfloor>log 2 \<bar>x\<bar>\<rfloor> = e"
    using assms p by (subst floor_log_eq_powr_iff) simp_all
  moreover from p have "x \<noteq> 0" by auto
  ultimately show ?thesis by (simp add: round_double_def Let_def)
qed

lemma float_1_1_times_20: "float_mul float_1_1 20 = 22"
proof -
  have r: "round_double (float_1_1 * 20)
     = 2 powr (of_int 4 - 52) * of_int (round_half_even (float_1_1 * 20 / 2 powr (of_int 4 - 52)))"
    by (rule round_double_at) (simp_all add: float_1_1_def)
  have u: "(2::real) powr (of_int 4 - 52) = 1 / 2 ^ 48"
    by (simp add: powr_minus_divide)
  have h: "round_half_even (float_1_1 * 20 / (1 / 2 ^ 48)) = 22 * 2 ^ 48"
    by (simp add: round_half_even_def float_1_1_def Let_def)
  show ?thesis unfolding float_mul_def r u h by simp
qed

lemma float_1_1_times_112: "float_mul float_1_1 112 = 4334714641344103 / 35184372088832"
proof -
  have r: "round_double (float_1_1 * 112)
     = 2 powr (of_int 6 - 52) * of_int (round_half_even (float_1_1 * 112 / 2 powr (of_int 6 - 52)))"
    by (rule round_double_at) (simp_all add: float_1_1_def)
  have u: "(2::real) powr (of_int 6 - 52) = 1 / 2 ^ 46"
    by (simp add: powr_minus_divide)
  have h: "round_half_even (float_1_1 * 112 / (1 / 2 ^ 46)) = 8669429282688206"
    by (simp add: round_half_even_def float_1_1_def Let_def)
  show ?thesis unfolding float_mul_def r u h by simp
qed

text \<open>
  C5 (amended). For every Parameter Set, the field of view that \<^verbatim>\<open>mirt_sim\<close> computes
  at lines 221-224, and passes to the simulator whenever it reaches it, is the reference
  field of view if the patient diameter equals the reference diameter, and otherwise the
  float product of \<^verbatim>\<open>1.1\<close> and the patient diameter. Hence it equals the reference field
  of view exactly when the two diameters are equal or the reference field of view is
  that float product.
\<close>

theorem mirt_sim_effective_fov:
  "mirt_fov pd rd rfov = (if pd = rd then rfov else float_mul float_1_1 pd)
   \<and> (mirt_fov pd rd rfov = rfov \<longleftrightarrow> pd = rd \<or> rfov = float_mul float_1_1 pd)
   \<and> (mirt_sim a = Inr c \<longrightarrow>
        oc_fov c = mirt_fov (sa_patient_diameter a) (sa_reference_diameter a) (sa_reference_fov a)
      \<and> oc_fov c = (if sa_patient_diameter a = sa_reference_diameter a then sa_reference_fov a
                    else float_mul float_1_1 (sa_patient_diameter a))
      \<and> (oc_fov c = sa_reference_fov a \<longleftrightarrow>
            sa_patient_diameter a = sa_reference_diameter a
            \<or> sa_reference_fov a = float_mul float_1_1 (sa_patient_diameter a)))"
  by (auto simp: mirt_fov_def dest!: mirt_sim_Inr_fov)

theorem mirt_sim_effective_fov_witness:
  "mirt_sim (default_sim_args\<lparr>sa_patient_diameter := 112\<rparr>)
     = Inr (projr (mirt_sim (default_sim_args\<lparr>sa_patient_diameter := 112\<rparr>)))
   \<and> oc_fov (projr (mirt_sim (default_sim_args\<lparr>sa_patient_diameter := 112\<rparr>)))
       = 4334714641344103 / 35184372088832
   \<and> mirt_fov 200 200 340 = 340"
proof -
  have h: "mirt_sim (default_sim_args\<lparr>sa_patient_diameter := 112\<rparr>)
     = Inr (projr (mirt_sim (default_sim_args\<lparr>sa_patient_diameter := 112\<rparr>)))"
    by (simp add: mirt_sim_def default_sim_args_def check_lesion_def normalize_alias_def
        aliases_def)
  from mirt_sim_effective_fov
    [of 200 200 340 "default_sim_args\<lparr>sa_patient_diameter := 112\<rparr>"
        "projr (mirt_sim (default_sim_args\<lparr>sa_patient_diameter := 112\<rparr>))"]
  show ?thesis
    using h by (simp add: default_sim_args_def float_1_1_times_112)
qed

text \<open>
  The claim as written fails: a 20 mm patient against a 200 mm reference with a 22 mm
  reference field of view is simulated with the reference field of view, since the float
  product \<^verbatim>\<open>1.1*20\<close> is \<^verbatim>\<open>22.0\<close>, although the diameters differ.
\<close>

theorem mirt_sim_fov_iff_counterexample:
  "\<not> isl (mirt_sim (default_sim_args\<lparr>sa_patient_diameter := 20, sa_reference_fov := 22\<rparr>))
   \<and> oc_fov (projr (mirt_sim (default_sim_args\<lparr>sa_patient_diameter := 20, sa_reference_fov := 22\<rparr>)))
       = sa_reference_fov (default_sim_args\<lparr>sa_patient_diameter := 20, sa_reference_fov := 22\<rparr>)
   \<and> sa_patient_diameter (default_sim_args\<lparr>sa_patient_diameter := 20, sa_reference_fov := 22\<rparr>)
       \<noteq> sa_reference_diameter (default_sim_args\<lparr>sa_patient_diameter := 20, sa_reference_fov := 22\<rparr>)"
  by (simp add: mirt_sim_def default_sim_args_def check_lesion_def normalize_alias_def
      aliases_def mirt_fov_def float_1_1_times_20)

subsection \<open>Shape checks on the lesion diameter\<close>

lemma upper_alias_not_CTP404: "p \<in> set aliases \<Longrightarrow> py_upper p \<noteq> ''CTP404''"
  by (auto simp: aliases_def py_upper_def upper_char_def)

lemma upper_CTP404_normalize:
  "py_upper p = ''CTP404'' \<Longrightarrow> normalize_alias p = p"
  using upper_alias_not_CTP404 [of p] by (auto simp: normalize_alias_def)

lemma check_lesion_CCT189:
  "xs \<noteq> [] \<Longrightarrow> length xs \<noteq> 4 \<Longrightarrow> check_lesion ''CCT189'' (LList xs) = Inl ValueError"
  by (simp add: check_lesion_def py_upper_def upper_char_def)

lemma check_lesion_CTP404:
  "xs \<noteq> [] \<Longrightarrow> py_upper p = ''CTP404'' \<Longrightarrow> check_lesion p (LList xs) = Inl ValueError"
  by (simp add: check_lesion_def)

text \<open>
  C4 (amended). If the phantom is CCT189 (or one of its aliases) and the lesion diameter
  is a non-empty list or array whose length is not 4, \<^verbatim>\<open>mirt_sim\<close> raises ValueError
  and makes no call to the simulator; if the phantom is CTP404 in any casing and the
  lesion diameter is a non-empty list or array, it raises ValueError and makes no call.
\<close>

theorem mirt_sim_lesion_shape:
  "(sa_phantom a \<in> set (''CCT189'' # aliases) \<and> sa_lesion_diameter a \<in> {LList xs, LArray xs}
      \<and> xs \<noteq> [] \<and> length xs \<noteq> 4
    \<longrightarrow> mirt_sim a = Inl ValueError)
   \<and> (py_upper (sa_phantom a) = ''CTP404'' \<and> sa_lesion_diameter a \<in> {LList xs, LArray xs}
      \<and> xs \<noteq> []
    \<longrightarrow> mirt_sim a = Inl ValueError)"
proof (intro conjI impI)
  assume h: "sa_phantom a \<in> set (''CCT189'' # aliases) \<and> sa_lesion_diameter a \<in> {LList xs, LArray xs}
      \<and> xs \<noteq> [] \<and> length xs \<noteq> 4"
  then have p: "normalize_alias (sa_phantom a) = ''CCT189''"
    by (auto simp: normalize_alias_def)
  from h have l: "as_list (sa_lesion_diameter a) = LList xs" by auto
  from h show "mirt_sim a = Inl ValueError"
    by (simp add: mirt_sim_def p l check_lesion_CCT189)
next
  assume h: "py_upper (sa_phantom a) = ''CTP404'' \<and> sa_lesion_diameter a \<in> {LList xs, LArray xs}
      \<and> xs \<noteq> []"
  then have p: "normalize_alias (sa_phantom a) = sa_phantom a"
    by (simp add: upper_CTP404_normalize)
  from h have l: "as_list (sa_lesion_diameter a) = LList xs" by auto
  from h show "mirt_sim a = Inl ValueError"
    by (simp add: mirt_sim_def p l check_lesion_CTP404)
qed

theorem mirt_sim_lesion_shape_witness:
  "mirt_sim (default_sim_args\<lparr>sa_phantom := ''MITA-LCD'', sa_lesion_diameter := LList [5, 4, 3]\<rparr>)
     = Inl ValueError
   \<and> mirt_sim (default_sim_args\<lparr>sa_phantom := ''Ctp404'', sa_lesion_diameter := LArray [5, 4]\<rparr>)
     = Inl ValueError"
proof -
  have "mirt_sim (default_sim_args\<lparr>sa_phantom := ''MITA-LCD'', sa_lesion_diameter := LList [5, 4, 3]\<rparr>)
     = Inl ValueError"
    using mirt_sim_lesion_shape
      [of "default_sim_args\<lparr>sa_phantom := ''MITA-LCD'', sa_lesion_diameter := LList [5, 4, 3]\<rparr>"
          "[5, 4, 3]"]
    by (simp add: aliases_def)
  moreover have "mirt_sim (default_sim_args\<lparr>sa_phantom := ''Ctp404'', sa_lesion_diameter := LArray [5, 4]\<rparr>)
     = Inl ValueError"
    using mirt_sim_lesion_shape
      [of "default_sim_args\<lparr>sa_phantom := ''Ctp404'', sa_lesion_diameter := LArray [5, 4]\<rparr>"
          "[5, 4]"]
    by (simp add: py_upper_def upper_char_def)
  ultimately show ?thesis by simp
qed

text \<open>
  The claim as written fails on the empty list: its length is not 4, yet the guard
  \<^verbatim>\<open>if lesion_diameter:\<close> skips both checks and the simulator is called, for CCT189
  and for CTP404 alike.
\<close>

theorem mirt_sim_empty_list_counterexample:
  "length ([] :: real list) \<noteq> 4
   \<and> \<not> isl (mirt_sim (default_sim_args\<lparr>sa_phantom := ''CCT189'', sa_lesion_diameter := LList []\<rparr>))
   \<and> \<not> isl (mirt_sim (default_sim_args\<lparr>sa_phantom := ''CTP404'', sa_lesion_diameter := LList []\<rparr>))"
  by (simp add: mirt_sim_def default_sim_args_def check_lesion_def normalize_alias_def
      aliases_def)

subsection \<open>Casing of the phantom name\<close>

lemma init_phantom_any_casing: "py_upper p \<in> set options \<Longrightarrow> init_phantom p = Inr p"
  using aliases_not_options [of p] by (auto simp: init_phantom_def normalize_alias_def)

lemma check_lesion_not_CCT189:
  "p \<noteq> ''CCT189'' \<Longrightarrow> py_upper p \<noteq> ''CTP404'' \<Longrightarrow> check_lesion p (LList xs) = Inr ()"
  by (simp add: check_lesion_def)

text \<open>
  C10 (amended). \<^verbatim>\<open>CTobj.__init__\<close> accepts every casing of the three supported kinds
  and stores the string as given. In \<^verbatim>\<open>mirt_sim\<close> only the CCT189 length check compares
  the string as given: a name other than exactly \<^verbatim>\<open>CCT189\<close> (and not CTP404 in some
  casing) passes with any list, so \<^verbatim>\<open>cct189\<close> with a list of three is accepted by the
  constructor and raises nothing in the shape check. The CTP404 check upper-cases the
  name first and so rejects a non-empty list for every casing of CTP404.
\<close>

theorem phantom_casing:
  "(py_upper p \<in> set options \<longrightarrow> init_phantom p = Inr p)
   \<and> (p \<noteq> ''CCT189'' \<and> py_upper p \<noteq> ''CTP404'' \<longrightarrow> check_lesion p (LList xs) = Inr ())
   \<and> (py_upper p = ''CTP404'' \<and> xs \<noteq> [] \<longrightarrow> check_lesion p (LList xs) = Inl ValueError)
   \<and> init_phantom ''cct189'' = Inr ''cct189''
   \<and> \<not> isl (mirt_sim (default_sim_args\<lparr>sa_phantom := ''cct189'',
                                         sa_lesion_diameter := LList [5, 4, 3]\<rparr>))"
proof -
  have "init_phantom ''cct189'' = Inr ''cct189''"
    by (rule init_phantom_any_casing) (simp add: options_def py_upper_def upper_char_def)
  moreover have "\<not> isl (mirt_sim (default_sim_args\<lparr>sa_phantom := ''cct189'',
                                         sa_lesion_diameter := LList [5, 4, 3]\<rparr>))"
    by (simp add: mirt_sim_def default_sim_args_def check_lesion_def normalize_alias_def
        aliases_def py_upper_def upper_char_def)
  ultimately show ?thesis
    by (simp add: init_phantom_any_casing check_lesion_not_CCT189 check_lesion_CTP404)
qed

theorem phantom_casing_witness:
  "init_phantom ''Uniform'' = Inr ''Uniform''
   \<and> check_lesion ''cct189'' (LList [5, 4, 3]) = Inr ()
   \<and> check_lesion ''ctp404'' (LList [5, 4, 3]) = Inl ValueError"
  using phantom_casing [of "''Uniform''" "[5, 4, 3]"]
        phantom_casing [of "''cct189''" "[5, 4, 3]"]
        phantom_casing [of "''ctp404''" "[5, 4, 3]"]
  by (simp add: options_def py_upper_def upper_char_def)

text \<open>
  The claim as written fails for CTP404: the comparison is not case-sensitive, since the
  lower-case name, which differs from \<^verbatim>\<open>CTP404\<close> as a string, is rejected with a list.
\<close>

theorem ctp404_case_insensitive_counterexample:
  "''ctp404'' \<noteq> ''CTP404''
   \<and> init_phantom ''ctp404'' = Inr ''ctp404''
   \<and> mirt_sim (default_sim_args\<lparr>sa_phantom := ''ctp404'', sa_lesion_diameter := LList [5, 4, 3]\<rparr>)
       = Inl ValueError"
  by (simp add: mirt_sim_def default_sim_args_def check_lesion_def normalize_alias_def
      aliases_def py_upper_def upper_char_def init_phantom_def options_def)

subsection \<open>The age curve\<close>

lemma round_to_decile_floor: "round_to_decile age = 10 * of_int \<lfloor>age / 10\<rfloor>"
  by (simp add: round_to_decile_def py_mod_def)

lemma round_to_decile_multiple:
  "round_to_decile age \<le> age \<and> age < round_to_decile age + 10
   \<and> round_to_decile age / 10 = of_int \<lfloor>age / 10\<rfloor>"
proof -
  have "of_int \<lfloor>age / 10\<rfloor> \<le> age / 10" "age / 10 < of_int \<lfloor>age / 10\<rfloor> + 1"
    by linarith+
  then have "10 * of_int \<lfloor>age / 10\<rfloor> \<le> age" "age < 10 * of_int \<lfloor>age / 10\<rfloor> + 10"
    by linarith+
  then show ?thesis by (simp add: round_to_decile_floor)
qed

lemma table_keys:
  "map_of adult_waist_circumferences_cm k =
     (if k = 30 then Some (999 / 10) else if k = 40 then Some (1028 / 10)
      else if k = 60 then Some (1062 / 10) else if k = 70 then Some (1066 / 10)
      else if k = 80 then Some (1041 / 10) else None)"
  by (simp add: adult_waist_circumferences_cm_def)

lemma cos_sin_three_halves_pi: "cos (3 * pi / 2) = 0" "sin (3 * pi / 2) = - 1"
  using cos_3over2_pi sin_3over2_pi by simp_all

lemma cis_three_halves_pi: "cis (3 / 2 * pi) = - \<i>"
  by (simp add: complex_eq_iff cos_sin_three_halves_pi)

lemma cis_half_pi: "cis (1 / 2 * pi) = \<i>"
  using cis_pi_half by simp

lemma tg204_nonneg:
  "0 \<le> x \<Longrightarrow>
   tg204 x = PyFloat (18788598 / 1000000 + 19486455 / 100000000 * x powr (3 / 2)
                      - 1060056 / 1000000 * x powr (1 / 2) - 76244784 / 10000000 * exp (- x))"
  by (simp add: tg204_def py_pow_def)

lemma tg204_neg:
  "x < 0 \<Longrightarrow>
   tg204 x = PyComplex (Complex (18788598 / 1000000 - 76244784 / 10000000 * exp (- x))
                                (- (19486455 / 100000000 * \<bar>x\<bar> powr (3 / 2))
                                 - 1060056 / 1000000 * \<bar>x\<bar> powr (1 / 2)))"
  by (simp add: tg204_def py_pow_def cos_sin_three_halves_pi complex_eq_iff)

text \<open>
  C9. For every age up to 22 the result is the TG204 polynomial
  18.788598 + 0.19486455 age^1.5 - 1.060056 age^0.5 - 7.6244784 e^(-age): a float for an
  age that is not negative, and for a negative age the complex number that Python's
  power gives. For every age above 22 it is the entry of the adult table under the age
  rounded down to a multiple of ten, and KeyError when the table has no such entry. The
  table holds exactly 30 \<mapsto> 99.9, 40 \<mapsto> 102.8, 60 \<mapsto> 106.2, 70 \<mapsto> 106.6, 80 \<mapsto> 104.1: there
  is no entry under a key below 30 nor under a key of the fifties. Age 30 gives exactly
  99.9.
\<close>

theorem age_to_eff_diameter_branches:
  "(0 \<le> age \<and> age \<le> 22 \<longrightarrow>
      age_to_eff_diameter age =
        Inr (PyFloat (18788598 / 1000000 + 19486455 / 100000000 * age powr (3 / 2)
                      - 1060056 / 1000000 * age powr (1 / 2)
                      - 76244784 / 10000000 * exp (- age))))
   \<and> (age < 0 \<longrightarrow>
      age_to_eff_diameter age =
        Inr (PyComplex (Complex (18788598 / 1000000 - 76244784 / 10000000 * exp (- age))
                                (- (19486455 / 100000000 * \<bar>age\<bar> powr (3 / 2))
                                 - 1060056 / 1000000 * \<bar>age\<bar> powr (1 / 2)))))
   \<and> (22 < age \<longrightarrow>
        age_to_eff_diameter age =
          (case map_of adult_waist_circumferences_cm (10 * of_int \<lfloor>age / 10\<rfloor>) of
             None \<Rightarrow> Inl KeyError | Some v \<Rightarrow> Inr (PyFloat v)))
   \<and> (10 * of_int \<lfloor>age / 10\<rfloor> \<le> age \<and> age < 10 * of_int \<lfloor>age / 10\<rfloor> + 10)
   \<and> age_to_eff_diameter 30 = Inr (PyFloat (999 / 10))
   \<and> adult_waist_circumferences_cm
        = [(30, 999 / 10), (40, 1028 / 10), (60, 1062 / 10), (70, 1066 / 10), (80, 1041 / 10)]
   \<and> (k < 30 \<longrightarrow> map_of adult_waist_circumferences_cm k = None)
   \<and> (50 \<le> k \<and> k < 60 \<longrightarrow> map_of adult_waist_circumferences_cm k = None)"
proof -
  have "age_to_eff_diameter 30 = Inr (PyFloat (999 / 10))"
    by (simp add: age_to_eff_diameter_def round_to_decile_floor table_keys)
  moreover have "10 * of_int \<lfloor>age / 10\<rfloor> \<le> age \<and> age < 10 * of_int \<lfloor>age / 10\<rfloor> + 10"
    using round_to_decile_multiple [of age] by (simp add: round_to_decile_floor)
  moreover have "0 \<le> age \<and> age \<le> 22 \<longrightarrow>
      age_to_eff_diameter age =
        Inr (PyFloat (18788598 / 1000000 + 19486455 / 100000000 * age powr (3 / 2)
                      - 1060056 / 1000000 * age powr (1 / 2)
                      - 76244784 / 10000000 * exp (- age)))"
    by (simp add: age_to_eff_diameter_def tg204_nonneg)
  moreover have "age < 0 \<longrightarrow>
      age_to_eff_diameter age =
        Inr (PyComplex (Complex (18788598 / 1000000 - 76244784 / 10000000 * exp (- age))
                                (- (19486455 / 100000000 * \<bar>age\<bar> powr (3 / 2))
                                 - 1060056 / 1000000 * \<bar>age\<bar> powr (1 / 2))))"
    by (simp add: age_to_eff_diameter_def tg204_neg)
  moreover have "22 < age \<longrightarrow>
        age_to_eff_diameter age =
          (case map_of adult_waist_circumferences_cm (10 * of_int \<lfloor>age / 10\<rfloor>) of
             None \<Rightarrow> Inl KeyError | Some v \<Rightarrow> Inr (PyFloat v))"
    by (simp add: age_to_eff_diameter_def round_to_decile_floor)
  moreover have "adult_waist_circumferences_cm
        = [(30, 999 / 10), (40, 1028 / 10), (60, 1062 / 10), (70, 1066 / 10), (80, 1041 / 10)]"
    by (simp add: adult_waist_circumferences_cm_def)
  moreover have "(k < 30 \<longrightarrow> map_of adult_waist_circumferences_cm k = None)
     \<and> (50 \<le> k \<and> k < 60 \<longrightarrow> map_of adult_waist_circumferences_cm k = None)"
    by (simp add: table_keys)
  ultimately show ?thesis by blast
qed

theorem age_to_eff_diameter_branches_witness:
  "age_to_eff_diameter 1
     = Inr (PyFloat (18788598 / 1000000 + 19486455 / 100000000 - 1060056 / 1000000
                     - 76244784 / 10000000 * exp (- 1)))
   \<and> age_to_eff_diameter (- 1)
     = Inr (PyComplex (Complex (18788598 / 1000000 - 76244784 / 10000000 * exp 1)
                               (- (19486455 / 100000000) - 1060056 / 1000000)))
   \<and> age_to_eff_diameter 47 = Inr (PyFloat (1028 / 10))
   \<and> age_to_eff_diameter 25 = Inl KeyError
   \<and> age_to_eff_diameter 55 = Inl KeyError
   \<and> map_of adult_waist_circumferences_cm 20 = None
   \<and> map_of adult_waist_circumferences_cm 50 = None"
  using age_to_eff_diameter_branches [of 1 20] age_to_eff_diameter_branches [of 47 50]
        age_to_eff_diameter_branches [of 25 50] age_to_eff_diameter_branches [of 55 50]
        age_to_eff_diameter_branches [of "- 1" 50]
  by (simp add: table_keys)

subsection \<open>Decimal text and UID arithmetic\<close>

lemma digit_val_digit_char: "d < 10 \<Longrightarrow> digit_val (digit_char d) = Some d"
proof -
  assume "d < 10"
  then have "d \<in> {0, 1, 2, 3, 4, 5, 6, 7, 8, 9}" by auto
  then show ?thesis by (auto simp: digit_val_def digit_char_def)
qed

lemma is_digit_digit_char: "d < 10 \<Longrightarrow> is_digit (digit_char d)"
  by (simp add: is_digit_def digit_val_digit_char)

lemma is_digit_cases: "is_digit c \<longleftrightarrow> c \<in> set ''0123456789''"
  by (auto simp: is_digit_def digit_val_def split: if_splits)

lemma str_nat_digits: "list_all is_digit (str_nat n)"
proof (induction n rule: str_nat.induct)
  case (1 n)
  show ?case
  proof (cases "n < 10")
    case True
    then show ?thesis by (subst str_nat.simps) (simp add: is_digit_digit_char)
  next
    case False
    with 1 show ?thesis by (subst str_nat.simps) (simp add: is_digit_digit_char)
  qed
qed

lemma str_nat_nonempty: "str_nat n \<noteq> []"
  by (subst str_nat.simps) simp

lemma digits_val_snoc: "digits_val (s @ [c]) = 10 * digits_val s + (case digit_val c of None \<Rightarrow> 0 | Some d \<Rightarrow> d)"
  by (simp add: digits_val_def)

lemma digits_val_str_nat: "digits_val (str_nat n) = n"
proof (induction n rule: str_nat.induct)
  case (1 n)
  show ?case
  proof (cases "n < 10")
    case True
    then show ?thesis
      by (subst str_nat.simps) (simp add: digits_val_def digit_val_digit_char)
  next
    case False
    with 1 show ?thesis
      by (subst str_nat.simps) (simp add: digits_val_snoc digit_val_digit_char)
  qed
qed


lemma digit_not_space: "is_digit c \<Longrightarrow> \<not> is_space c"
  by (auto simp: is_digit_cases is_space_def)

lemma py_strip_id: "s \<noteq> [] \<Longrightarrow> \<not> is_space (hd s) \<Longrightarrow> \<not> is_space (last s) \<Longrightarrow> py_strip s = s"
proof -
  assume a: "s \<noteq> []" "\<not> is_space (hd s)" "\<not> is_space (last s)"
  then have 1: "dropWhile is_space s = s" by (cases s) auto
  from a have "dropWhile is_space (rev s) = rev s"
    by (cases "rev s") (auto simp: last_rev [symmetric] hd_rev)
  with 1 show ?thesis by (simp add: py_strip_def)
qed

lemma no_double_underscore_digits: "list_all is_digit s \<Longrightarrow> no_double_underscore s"
proof (induction s rule: no_double_underscore.induct)
  case (1 a b cs)
  then show ?case by (auto simp: is_digit_cases)
qed auto

lemma digit_group_digits: "s \<noteq> [] \<Longrightarrow> list_all is_digit s \<Longrightarrow> digit_group s"
proof -
  assume a: "s \<noteq> []" "list_all is_digit s"
  then have "is_digit (hd s)" "is_digit (last s)"
    by (auto simp: list_all_iff)
  moreover from a have "list_all (\<lambda>c. is_digit c \<or> c = CHR ''_'') s"
    by (auto simp: list_all_iff)
  ultimately show ?thesis using a by (simp add: digit_group_def no_double_underscore_digits)
qed

lemma filter_digits_id: "list_all is_digit s \<Longrightarrow> filter is_digit s = s"
  by (induction s) auto

lemma py_int_digits:
  assumes "s \<noteq> []" "list_all is_digit s"
  shows "py_int s = Inr (int (digits_val s))"
proof -
  from assms have d: "is_digit (hd s)" "is_digit (last s)" by (auto simp: list_all_iff)
  then have "py_strip s = s" using assms by (simp add: py_strip_id digit_not_space)
  moreover from d assms have "drop_sign s = (False, s)"
    by (cases s) (auto simp: drop_sign_def is_digit_cases)
  ultimately show ?thesis using assms
    by (simp add: py_int_def digit_group_digits filter_digits_id)
qed

lemma py_int_minus_digits:
  assumes "s \<noteq> []" "list_all is_digit s"
  shows "py_int (CHR ''-'' # s) = Inr (- int (digits_val s))"
proof -
  from assms have d: "is_digit (last s)" by (auto simp: list_all_iff)
  have "py_strip (CHR ''-'' # s) = CHR ''-'' # s"
    using assms d by (intro py_strip_id) (auto simp: is_digit_cases is_space_def)
  then show ?thesis using assms
    by (simp add: py_int_def drop_sign_def digit_group_digits filter_digits_id)
qed

lemma py_int_py_str: "py_int (py_str n) = Inr n"
  by (simp add: py_str_def py_int_digits py_int_minus_digits str_nat_nonempty str_nat_digits
      digits_val_str_nat)

lemma py_str_inj: "py_str a = py_str b \<Longrightarrow> a = b"
proof -
  assume "py_str a = py_str b"
  then have "py_int (py_str a) = py_int (py_str b)" by simp
  then show ?thesis by (simp add: py_int_py_str)
qed

lemma py_int_nonempty: "py_int s = Inr n \<Longrightarrow> s \<noteq> []"
  by (auto simp: py_int_def py_strip_def drop_sign_def digit_group_def)

lemma str_nat_no_char: "\<not> is_digit c \<Longrightarrow> c \<notin> set (str_nat n)"
  using str_nat_digits [of n] by (auto simp: list_all_iff)

lemma py_str_no_dot: "CHR ''.'' \<notin> set (py_str n)"
  by (simp add: py_str_def str_nat_no_char is_digit_cases)



lemma split_from_nonempty: "split_from sep cur s \<noteq> []"
  by (induction sep cur s rule: split_from.induct) auto

lemma takeWhile_rev_all: "c \<notin> set s \<Longrightarrow> takeWhile (\<lambda>x. x \<noteq> c) (rev s) = rev s"
  by (auto simp: takeWhile_eq_all_conv)

lemma last_split_char:
  "last (split_from [c] cur s) =
     (if c \<in> set s then rev (takeWhile (\<lambda>x. x \<noteq> c) (rev s)) else cur @ s)"
proof (induction s arbitrary: cur)
  case Nil
  then show ?case by simp
next
  case (Cons x xs)
  show ?case
  proof (cases "x = c")
    case True
    then show ?thesis
      using Cons [of "[]"] by (auto simp: split_from_nonempty takeWhile_append takeWhile_rev_all)
  next
    case False
    then show ?thesis
      using Cons [of "cur @ [x]"] by (auto simp: takeWhile_append)
  qed
qed

lemma final_segment_eq: "final_segment s = rev (takeWhile (\<lambda>x. x \<noteq> CHR ''.'') (rev s))"
  by (simp add: final_segment_def py_split_def last_split_char takeWhile_rev_all)

lemma final_segment_no_dot: "CHR ''.'' \<notin> set (final_segment s)"
  by (auto simp: final_segment_eq dest: set_takeWhileD)

lemma final_segment_decomp:
  "\<exists>pre. s = pre @ final_segment s \<and> (pre = [] \<or> last pre = CHR ''.'')"
proof -
  let ?P = "\<lambda>x. x \<noteq> CHR ''.''"
  let ?pre = "rev (dropWhile ?P (rev s))"
  have "rev s = takeWhile ?P (rev s) @ dropWhile ?P (rev s)" by simp
  then have "rev (rev s) = rev (takeWhile ?P (rev s) @ dropWhile ?P (rev s))" by simp
  then have "s = ?pre @ final_segment s"
    by (simp only: rev_append rev_rev_ident final_segment_eq)
  moreover have "?pre = [] \<or> last ?pre = CHR ''.''"
  proof (cases "dropWhile ?P (rev s)")
    case Nil
    then show ?thesis by simp
  next
    case (Cons a as)
    have "dropWhile ?P (rev s) \<noteq> []" by (simp add: Cons)
    then have "\<not> ?P (hd (dropWhile ?P (rev s)))" by (rule hd_dropWhile)
    then have "a = CHR ''.''" by (simp add: Cons)
    then show ?thesis by (simp add: Cons)
  qed
  ultimately show ?thesis by blast
qed

lemma final_segment_append:
  "CHR ''.'' \<notin> set t \<Longrightarrow> pre = [] \<or> last pre = CHR ''.'' \<Longrightarrow> final_segment (pre @ t) = t"
proof -
  assume a: "CHR ''.'' \<notin> set t" "pre = [] \<or> last pre = CHR ''.''"
  let ?P = "\<lambda>x. x \<noteq> CHR ''.''"
  have "takeWhile ?P (rev t @ rev pre) = rev t @ takeWhile ?P (rev pre)"
    using a(1) by (simp add: takeWhile_append)
  moreover have "takeWhile ?P (rev pre) = []"
    using a(2) by (cases "rev pre") (auto simp: last_rev [symmetric] hd_rev)
  ultimately show ?thesis by (simp add: final_segment_eq)
qed

lemma prefix_before_dot:
  assumes "c \<notin> set old" "pre \<noteq> []" "last pre = c" "prefix old (pre @ t)"
  shows "prefix old pre \<and> length old < length pre"
proof -
  have "\<not> length pre \<le> length old"
  proof
    assume "length pre \<le> length old"
    with assms(4) have "prefix pre old"
      by (metis prefix_length_prefix prefixI)
    then have "set pre \<subseteq> set old" by (auto simp: prefix_def)
    moreover have "c \<in> set pre" using assms(2,3) last_in_set by metis
    ultimately show False using assms(1) by auto
  qed
  then have l: "length old < length pre" by simp
  with assms(4) have "prefix old pre"
    by (auto simp: prefix_def append_eq_append_conv2 dest!: arg_cong [where f = length])
  with l show ?thesis by simp
qed


lemma py_replace_self: "old \<noteq> [] \<Longrightarrow> py_replace old new old = new"
  by (cases old) auto

lemma py_replace_before_dot:
  assumes "old \<noteq> []" "c \<notin> set old"
  shows "pre = [] \<or> last pre = c \<Longrightarrow>
         py_replace old new (pre @ old) = py_replace old new pre @ new
         \<and> (pre \<noteq> [] \<longrightarrow> py_replace old new pre \<noteq> [] \<and> last (py_replace old new pre) = c)"
proof (induction pre rule: length_induct)
  case (1 pre)
  show ?case
  proof (cases pre)
    case Nil
    then show ?thesis using assms(1) by (simp add: py_replace_self)
  next
    case (Cons x xs)
    then have pl: "pre \<noteq> []" "last pre = c" using 1(2) by auto
    show ?thesis
    proof (cases "prefix old (pre @ old)")
      case True
      from prefix_before_dot [OF assms(2) pl True]
      have p: "prefix old pre" and l: "length old < length pre" by auto
      let ?r = "drop (length old) pre"
      have r: "?r \<noteq> []" "last ?r = c" "length ?r < length pre"
        using l pl assms(1) by auto
      from 1(1) r have ih: "py_replace old new (?r @ old) = py_replace old new ?r @ new"
        "py_replace old new ?r \<noteq> []" "last (py_replace old new ?r) = c"
        by auto
      have d: "drop (length old) (pre @ old) = ?r @ old" using l by simp
      have "py_replace old new (pre @ old)
              = new @ py_replace old new (drop (length old) (pre @ old))"
        using True assms(1) by (cases "pre @ old") auto
      then have a: "py_replace old new (pre @ old) = new @ py_replace old new (?r @ old)"
        by (simp only: d)
      have b: "py_replace old new pre = new @ py_replace old new ?r"
        using p assms(1) by (cases pre) auto
      from a b ih show ?thesis by simp
    next
      case False
      then have np: "\<not> prefix old pre" by (auto simp: prefix_def)
      have x: "xs = [] \<or> last xs = c" using pl Cons by (cases xs) auto
      from 1(1) x Cons
      have ih: "py_replace old new (xs @ old) = py_replace old new xs @ new"
        "xs \<noteq> [] \<longrightarrow> py_replace old new xs \<noteq> [] \<and> last (py_replace old new xs) = c"
        by auto
      have a: "py_replace old new (pre @ old) = x # py_replace old new (xs @ old)"
        using False assms(1) by (simp add: Cons)
      have b: "py_replace old new pre = x # py_replace old new xs"
        using np assms(1) by (simp add: Cons)
      have c: "xs = [] \<longrightarrow> x = c \<and> py_replace old new xs = []"
        using pl Cons assms(1) by auto
      from a b c ih show ?thesis by auto
    qed
  qed
qed

lemma final_segment_replace:
  assumes "final_segment uid \<noteq> []" "CHR ''.'' \<notin> set new"
  shows "final_segment (py_replace (final_segment uid) new uid) = new"
proof -
  obtain pre where pre: "uid = pre @ final_segment uid" "pre = [] \<or> last pre = CHR ''.''"
    using final_segment_decomp by blast
  let ?e = "final_segment uid"
  from py_replace_before_dot [OF assms(1) final_segment_no_dot pre(2), of new]
  have r: "py_replace ?e new (pre @ ?e) = py_replace ?e new pre @ new"
    "pre \<noteq> [] \<longrightarrow> py_replace ?e new pre \<noteq> [] \<and> last (py_replace ?e new pre) = CHR ''.''"
    by auto
  have e: "pre = [] \<longrightarrow> py_replace ?e new pre = []" using assms(1) by simp
  have "final_segment (py_replace ?e new pre @ new) = new"
    using r(2) e by (intro final_segment_append [OF assms(2)]) auto
  with r(1) pre(1) show ?thesis by simp
qed

lemma bump_uid_numeric:
  assumes "py_int (final_segment uid) = Inr n"
  shows "bump_uid uid k = Inr (py_replace (final_segment uid) (py_str (n + k)) uid)"
    and "final_segment (py_replace (final_segment uid) (py_str (n + k)) uid) = py_str (n + k)"
    and "py_int (final_segment (py_replace (final_segment uid) (py_str (n + k)) uid)) = Inr (n + k)"
proof -
  show "bump_uid uid k = Inr (py_replace (final_segment uid) (py_str (n + k)) uid)"
    using assms by (simp add: bump_uid_def Let_def)
  show f: "final_segment (py_replace (final_segment uid) (py_str (n + k)) uid) = py_str (n + k)"
    using assms by (intro final_segment_replace py_int_nonempty py_str_no_dot)
  show "py_int (final_segment (py_replace (final_segment uid) (py_str (n + k)) uid)) = Inr (n + k)"
    by (simp add: f py_int_py_str)
qed

lemma bump_uid_Inr:
  "bump_uid uid k = Inr u \<Longrightarrow> \<exists>n. py_int (final_segment uid) = Inr n"
  by (cases "py_int (final_segment uid)") (auto simp: bump_uid_def Let_def)

subsection \<open>The slice loop\<close>

lemma sum_offsets_shift:
  "(\<Sum>j = idx..idx + Suc k. int j + c) = (int idx + c) + (\<Sum>j = Suc idx..Suc idx + k. int j + c)"
  by (simp add: sum.atLeast_Suc_atMost)

lemma slice_pass_numeric:
  fixes ds :: "'px dicom"
  assumes "py_int (final_segment (SOPInstanceUID ds)) = Inr n"
      and "py_int (final_segment (MediaStorageSOPInstanceUID ds)) = Inr m"
  shows "\<exists>ds'. slice_pass ds studyid seriesid idx a = Inr ds'
           \<and> final_segment (SOPInstanceUID ds') = py_str (n + (int idx + studyid + seriesid))
           \<and> final_segment (MediaStorageSOPInstanceUID ds') = py_str (m + (int idx + studyid + seriesid))
           \<and> py_int (final_segment (SOPInstanceUID ds')) = Inr (n + (int idx + studyid + seriesid))
           \<and> py_int (final_segment (MediaStorageSOPInstanceUID ds')) = Inr (m + (int idx + studyid + seriesid))"
  using bump_uid_numeric [OF assms(1), where k = "int idx + studyid + seriesid"]
        bump_uid_numeric [OF assms(2), where k = "int idx + studyid + seriesid"]
  by (simp add: slice_pass_def)

lemma write_slices_chain:
  fixes ds :: "'px dicom"
  assumes "py_int (final_segment (SOPInstanceUID ds)) = Inr n"
      and "py_int (final_segment (MediaStorageSOPInstanceUID ds)) = Inr m"
  shows "\<exists>ws. write_slices ds fname nslices studyid seriesid idx sl fnames fs
                = Inr (fnames @ map fst ws, fs @ ws)
           \<and> length ws = length sl
           \<and> (\<forall>k < length sl.
                 fst (ws ! k) = dcm_fname fname nslices (idx + k)
               \<and> slice_pass (if k = 0 then ds else snd (ws ! (k - 1))) studyid seriesid (idx + k)
                     (sl ! k) = Inr (snd (ws ! k))
               \<and> final_segment (SOPInstanceUID (snd (ws ! k)))
                   = py_str (n + (\<Sum>j = idx..idx + k. int j + (studyid + seriesid)))
               \<and> final_segment (MediaStorageSOPInstanceUID (snd (ws ! k)))
                   = py_str (m + (\<Sum>j = idx..idx + k. int j + (studyid + seriesid))))"
  using assms
proof (induction sl arbitrary: ds idx fnames fs n m)
  case Nil
  then show ?case by simp
next
  case (Cons a sl)
  let ?off = "int idx + studyid + seriesid"
  from slice_pass_numeric [OF Cons.prems, of studyid seriesid idx a]
  obtain ds' where ds':
    "slice_pass ds studyid seriesid idx a = Inr ds'"
    "final_segment (SOPInstanceUID ds') = py_str (n + ?off)"
    "final_segment (MediaStorageSOPInstanceUID ds') = py_str (m + ?off)"
    "py_int (final_segment (SOPInstanceUID ds')) = Inr (n + ?off)"
    "py_int (final_segment (MediaStorageSOPInstanceUID ds')) = Inr (m + ?off)"
    by blast
  let ?name = "dcm_fname fname nslices idx"
  from Cons.IH [OF ds'(4,5), where idx = "Suc idx" and fnames = "fnames @ [?name]"
                  and fs = "fs @ [(?name, ds')]"]
  obtain ws where ws:
    "write_slices ds' fname nslices studyid seriesid (Suc idx) sl (fnames @ [?name])
       (fs @ [(?name, ds')]) = Inr ((fnames @ [?name]) @ map fst ws, (fs @ [(?name, ds')]) @ ws)"
    "length ws = length sl"
    "\<And>k. k < length sl \<Longrightarrow>
                 fst (ws ! k) = dcm_fname fname nslices (Suc idx + k)
               \<and> slice_pass (if k = 0 then ds' else snd (ws ! (k - 1))) studyid seriesid (Suc idx + k)
                     (sl ! k) = Inr (snd (ws ! k))
               \<and> final_segment (SOPInstanceUID (snd (ws ! k)))
                   = py_str (n + ?off + (\<Sum>j = Suc idx..Suc idx + k. int j + (studyid + seriesid)))
               \<and> final_segment (MediaStorageSOPInstanceUID (snd (ws ! k)))
                   = py_str (m + ?off + (\<Sum>j = Suc idx..Suc idx + k. int j + (studyid + seriesid)))"
    by blast
  let ?ws = "(?name, ds') # ws"
  have 1: "write_slices ds fname nslices studyid seriesid idx (a # sl) fnames fs
            = Inr (fnames @ map fst ?ws, fs @ ?ws)"
    using ws(1) ds'(1) by simp
  have 2: "length ?ws = length (a # sl)" using ws(2) by simp
  have 3: "fst (?ws ! k) = dcm_fname fname nslices (idx + k)
               \<and> slice_pass (if k = 0 then ds else snd (?ws ! (k - 1))) studyid seriesid (idx + k)
                     ((a # sl) ! k) = Inr (snd (?ws ! k))
               \<and> final_segment (SOPInstanceUID (snd (?ws ! k)))
                   = py_str (n + (\<Sum>j = idx..idx + k. int j + (studyid + seriesid)))
               \<and> final_segment (MediaStorageSOPInstanceUID (snd (?ws ! k)))
                   = py_str (m + (\<Sum>j = idx..idx + k. int j + (studyid + seriesid)))"
    if "k < length (a # sl)" for k
  proof (cases k)
    case 0
    then show ?thesis using ds' by (simp add: add.assoc)
  next
    case (Suc k')
    with that have k': "k' < length sl" by simp
    have s: "(\<Sum>j = idx..idx + Suc k'. int j + (studyid + seriesid))
             = ?off + (\<Sum>j = Suc idx..Suc idx + k'. int j + (studyid + seriesid))"
      by (simp add: sum.atLeast_Suc_atMost add.assoc)
    have p: "(if Suc k' = 0 then ds else snd (?ws ! (Suc k' - 1)))
              = (if k' = 0 then ds' else snd (ws ! (k' - 1)))"
      by (cases k') auto
    from ws(3) [OF k'] show ?thesis
      unfolding Suc p s by (simp add: add.assoc)
  qed
  from 1 2 3 show ?case by blast
qed

lemma bind_Inr: "bind x f = Inr y \<longleftrightarrow> (\<exists>v. x = Inr v \<and> f v = Inr y)"
  by (cases x) auto

lemma slices_add_axis: "slices (if ndim v = 2 then add_axis v else v) = slices v"
  by (cases v) auto

lemma slice_pass_Inr:
  "slice_pass ds studyid seriesid idx a = Inr ds' \<Longrightarrow>
     bump_uid (SOPInstanceUID ds) (int idx + studyid + seriesid) = Inr (SOPInstanceUID ds')
   \<and> bump_uid (MediaStorageSOPInstanceUID ds) (int idx + studyid + seriesid)
       = Inr (MediaStorageSOPInstanceUID ds')
   \<and> ds' = ds\<lparr> InstanceNumber := int idx + 1, SOPInstanceUID := SOPInstanceUID ds',
               MediaStorageSOPInstanceUID := MediaStorageSOPInstanceUID ds',
               PixelData := Some a \<rparr>"
  by (auto simp: slice_pass_def bind_Inr)

lemma write_slices_numeric:
  "write_slices ds fname nslices studyid seriesid idx (a # sl) fnames fs = Inr r \<Longrightarrow>
   \<exists>n m. py_int (final_segment (SOPInstanceUID ds)) = Inr n
       \<and> py_int (final_segment (MediaStorageSOPInstanceUID ds)) = Inr m"
  by (auto simp: bind_Inr slice_pass_def dest!: bump_uid_Inr)

lemma write_slices_Inr:
  assumes "write_slices ds fname nslices studyid seriesid idx sl fnames fs = Inr (fnames', fs')"
  shows "\<exists>ws. fnames' = fnames @ map fst ws \<and> fs' = fs @ ws \<and> length ws = length sl
           \<and> (\<forall>k < length sl.
                 fst (ws ! k) = dcm_fname fname nslices (idx + k)
               \<and> slice_pass (if k = 0 then ds else snd (ws ! (k - 1))) studyid seriesid (idx + k)
                     (sl ! k) = Inr (snd (ws ! k))
               \<and> (\<exists>n. py_int (final_segment (SOPInstanceUID ds)) = Inr n
                     \<and> final_segment (SOPInstanceUID (snd (ws ! k)))
                         = py_str (n + (\<Sum>j = idx..idx + k. int j + (studyid + seriesid))))
               \<and> (\<exists>m. py_int (final_segment (MediaStorageSOPInstanceUID ds)) = Inr m
                     \<and> final_segment (MediaStorageSOPInstanceUID (snd (ws ! k)))
                         = py_str (m + (\<Sum>j = idx..idx + k. int j + (studyid + seriesid)))))"
proof (cases sl)
  case Nil
  with assms show ?thesis by simp
next
  case (Cons a sl')
  from write_slices_numeric [OF assms [unfolded Cons]]
  obtain n m where nm: "py_int (final_segment (SOPInstanceUID ds)) = Inr n"
    "py_int (final_segment (MediaStorageSOPInstanceUID ds)) = Inr m" by blast
  from write_slices_chain [OF nm, of fname nslices studyid seriesid idx sl fnames fs]
  obtain ws where ws: "write_slices ds fname nslices studyid seriesid idx sl fnames fs
                = Inr (fnames @ map fst ws, fs @ ws)" "length ws = length sl"
     "\<And>k. k < length sl \<Longrightarrow>
                 fst (ws ! k) = dcm_fname fname nslices (idx + k)
               \<and> slice_pass (if k = 0 then ds else snd (ws ! (k - 1))) studyid seriesid (idx + k)
                     (sl ! k) = Inr (snd (ws ! k))
               \<and> final_segment (SOPInstanceUID (snd (ws ! k)))
                   = py_str (n + (\<Sum>j = idx..idx + k. int j + (studyid + seriesid)))
               \<and> final_segment (MediaStorageSOPInstanceUID (snd (ws ! k)))
                   = py_str (m + (\<Sum>j = idx..idx + k. int j + (studyid + seriesid)))"
    by blast
  from ws(1) assms have "fnames' = fnames @ map fst ws" "fs' = fs @ ws" by auto
  with ws(2,3) nm show ?thesis by blast
qed

subsection \<open>The header and the whole of write_to_dicom\<close>

lemma dicom_header_Inr:
  assumes "dicom_header template ct = Inr (ct', nslices, ds)"
  shows "\<exists>r series study. ct_recon ct = Some r \<and> nslices = length (slices r)
           \<and> int nslices = ct_nsims ct
           \<and> ct' = ct\<lparr> ct_recon := Some (if ndim r = 2 then add_axis r else r) \<rparr>
           \<and> ct_matrix_size ct \<noteq> 0
           \<and> bump_uid (SeriesInstanceUID template) (ct_studyid ct) = Inr series
           \<and> bump_uid (StudyInstanceUID template) (ct_studyid ct) = Inr study
           \<and> ds = template\<lparr> PatientName := ct_patientname ct, SeriesNumber := ct_seriesid ct,
                 PatientAge := fmt_03d (ct_age ct) @ ''Y'',
                 PatientID := fmt_03d (ct_patientid ct),
                 ImageComments :=
                   ''effctive diameter [cm]: '' @ str_tenths (ct_patient_diameter ct),
                 ReconstructionDiameter := ct_fov ct, Exposure := ct_I0 ct,
                 PixelSpacing := ct_fov ct / of_int (ct_matrix_size ct),
                 StudyID := py_str (ct_studyid ct),
                 SeriesInstanceUID := series,
                 StudyInstanceUID := study,
                 AcquisitionNumber := ct_studyid ct \<rparr>"
proof -
  from assms obtain r where r: "ct_recon ct = Some r"
    by (cases "ct_recon ct") (simp_all add: dicom_header_def)
  define recon where "recon = (if ndim r = 2 then add_axis r else r)"
  have sl: "slices recon = slices r" by (simp only: recon_def slices_add_axis)
  note h = assms [unfolded dicom_header_def Let_def r option.case, folded recon_def, unfolded sl]
  from h have a: "int (length (slices r)) = ct_nsims ct" "ct_matrix_size ct \<noteq> 0"
    by (auto split: if_splits)
  from h a obtain series study where
    s: "bump_uid (SeriesInstanceUID template) (ct_studyid ct) = Inr series"
       "bump_uid (StudyInstanceUID template) (ct_studyid ct) = Inr study"
    and e: "ct' = ct\<lparr> ct_recon := Some recon \<rparr>" "nslices = length (slices r)"
      "ds = template\<lparr> PatientName := ct_patientname ct, SeriesNumber := ct_seriesid ct,
                 PatientAge := fmt_03d (ct_age ct) @ ''Y'',
                 PatientID := fmt_03d (ct_patientid ct),
                 ImageComments :=
                   ''effctive diameter [cm]: '' @ str_tenths (ct_patient_diameter ct),
                 ReconstructionDiameter := ct_fov ct, Exposure := ct_I0 ct,
                 PixelSpacing := ct_fov ct / of_int (ct_matrix_size ct),
                 StudyID := py_str (ct_studyid ct),
                 SeriesInstanceUID := series,
                 StudyInstanceUID := study,
                 AcquisitionNumber := ct_studyid ct \<rparr>"
    by (simp add: bind_Inr) blast
  from r a s e show ?thesis unfolding recon_def by blast
qed

lemma write_to_dicom_Inr:
  assumes "write_to_dicom template ct fname groundtruth fs = Inr (ct', fnames, fs')"
  shows "\<exists>nslices ds v. dicom_header template ct = Inr (ct', nslices, ds)
           \<and> (if groundtruth then ct_groundtruth ct' else ct_recon ct') = Some v
           \<and> write_slices ds fname nslices (ct_studyid ct) (ct_seriesid ct) 0 (slices v) [] fs
               = Inr (fnames, fs')"
proof -
  from assms obtain c n ds where h: "dicom_header template ct = Inr (c, n, ds)"
    and r: "(case (if groundtruth then ct_groundtruth c else ct_recon c) of
         None \<Rightarrow> Inl AttributeError
       | Some v \<Rightarrow>
           let vol = (if ndim v = 2 then add_axis v else v)
           in bind (write_slices ds fname n (ct_studyid c) (ct_seriesid c) 0
                      (slices vol) [] fs)
                (\<lambda>(fnames, fs'). Inr (c, fnames, fs'))) = Inr (ct', fnames, fs')"
    by (auto simp: write_to_dicom_def bind_Inr)
  from r obtain v where v: "(if groundtruth then ct_groundtruth c else ct_recon c) = Some v"
    by (cases "if groundtruth then ct_groundtruth c else ct_recon c") auto
  from r have w: "bind (write_slices ds fname n (ct_studyid c) (ct_seriesid c) 0 (slices v) [] fs)
                (\<lambda>(fnames, fs'). Inr (c, fnames, fs')) = Inr (ct', fnames, fs')"
    unfolding v option.case Let_def slices_add_axis .
  then have c: "c = ct'" and w': "write_slices ds fname n (ct_studyid c) (ct_seriesid c) 0 (slices v) [] fs
               = Inr (fnames, fs')"
    by (auto simp: bind_Inr)
  from dicom_header_Inr [OF h] obtain r0 where "c = ct\<lparr> ct_recon := Some r0 \<rparr>" by blast
  then have "ct_studyid c = ct_studyid ct" "ct_seriesid c = ct_seriesid ct"
    by simp_all
  with h v w' c show ?thesis by auto
qed

subsection \<open>What a successful write_to_dicom leaves\<close>

lemma write_slices_frame:
  assumes "\<And>k. k < n \<Longrightarrow>
             slice_pass (if k = 0 then ds else snd (ws ! (k - 1))) studyid seriesid (idx + k) (sl ! k)
               = Inr (snd (ws ! k))"
      and "k < n"
  shows "snd (ws ! k) =
           ds\<lparr> InstanceNumber := int (idx + k) + 1,
               SOPInstanceUID := SOPInstanceUID (snd (ws ! k)),
               MediaStorageSOPInstanceUID := MediaStorageSOPInstanceUID (snd (ws ! k)),
               PixelData := Some (sl ! k) \<rparr>"
  using assms(2)
proof (induction k)
  case 0
  from slice_pass_Inr [OF assms(1) [OF 0, simplified]] show ?case by simp
next
  case (Suc k)
  then have k: "k < n" by simp
  have p: "snd (ws ! k) =
           ds\<lparr> InstanceNumber := int (idx + k) + 1,
               SOPInstanceUID := SOPInstanceUID (snd (ws ! k)),
               MediaStorageSOPInstanceUID := MediaStorageSOPInstanceUID (snd (ws ! k)),
               PixelData := Some (sl ! k) \<rparr>" by (rule Suc.IH [OF k])
  from assms(1) [OF Suc.prems]
  have "slice_pass (snd (ws ! k)) studyid seriesid (idx + Suc k) (sl ! Suc k) = Inr (snd (ws ! Suc k))"
    by simp
  from slice_pass_Inr [OF this]
  have "snd (ws ! Suc k) = (snd (ws ! k))\<lparr> InstanceNumber := int (idx + Suc k) + 1,
               SOPInstanceUID := SOPInstanceUID (snd (ws ! Suc k)),
               MediaStorageSOPInstanceUID := MediaStorageSOPInstanceUID (snd (ws ! Suc k)),
               PixelData := Some (sl ! Suc k) \<rparr>" by blast
  then show ?case by (subst (asm) p) simp
qed



lemma write_to_dicom_writes:
  assumes "write_to_dicom template ct fname groundtruth fs = Inr (ct', fnames, fs')"
  shows "\<exists>ws ds v r.
           fs' = fs @ ws \<and> fnames = map fst ws
         \<and> ct_recon ct = Some r \<and> int (length (slices r)) = ct_nsims ct
         \<and> (if groundtruth then ct_groundtruth ct else ct_recon ct) = Some v
         \<and> length ws = length (slices v)
         \<and> dicom_header template ct = Inr (ct', length (slices r), ds)
         \<and> (\<forall>k < length ws.
               fst (ws ! k) = dcm_fname fname (length (slices r)) k
             \<and> slice_pass (if k = 0 then ds else snd (ws ! (k - 1))) (ct_studyid ct)
                   (ct_seriesid ct) k (slices v ! k) = Inr (snd (ws ! k))
             \<and> snd (ws ! k) =
                 ds\<lparr> InstanceNumber := int k + 1,
                     SOPInstanceUID := SOPInstanceUID (snd (ws ! k)),
                     MediaStorageSOPInstanceUID := MediaStorageSOPInstanceUID (snd (ws ! k)),
                     PixelData := Some (slices v ! k) \<rparr>
             \<and> (\<exists>n. py_int (final_segment (SOPInstanceUID ds)) = Inr n
                   \<and> final_segment (SOPInstanceUID (snd (ws ! k)))
                       = py_str (n + (\<Sum>j\<le>k. int j + (ct_studyid ct + ct_seriesid ct))))
             \<and> (\<exists>m. py_int (final_segment (MediaStorageSOPInstanceUID ds)) = Inr m
                   \<and> final_segment (MediaStorageSOPInstanceUID (snd (ws ! k)))
                       = py_str (m + (\<Sum>j\<le>k. int j + (ct_studyid ct + ct_seriesid ct)))))"
proof -
  from write_to_dicom_Inr [OF assms] obtain nslices ds v' where
    h: "dicom_header template ct = Inr (ct', nslices, ds)"
    and v': "(if groundtruth then ct_groundtruth ct' else ct_recon ct') = Some v'"
    and w: "write_slices ds fname nslices (ct_studyid ct) (ct_seriesid ct) 0 (slices v') [] fs
               = Inr (fnames, fs')"
    by blast
  from dicom_header_Inr [OF h] obtain r where
    r: "ct_recon ct = Some r" "nslices = length (slices r)" "int nslices = ct_nsims ct"
       "ct' = ct\<lparr> ct_recon := Some (if ndim r = 2 then add_axis r else r) \<rparr>"
    by blast
  obtain v where v: "(if groundtruth then ct_groundtruth ct else ct_recon ct) = Some v"
    "slices v = slices v'"
  proof (cases groundtruth)
    case True
    with v' r(4) have "(if groundtruth then ct_groundtruth ct else ct_recon ct) = Some v'" by simp
    then show ?thesis using that by simp
  next
    case False
    with v' r(4) have "v' = (if ndim r = 2 then add_axis r else r)" by simp
    then have "slices r = slices v'" by (simp only: slices_add_axis)
    with False r(1) show ?thesis using that by simp
  qed
  from write_slices_Inr [OF w] obtain ws where
    ws: "fnames = map fst ws" "fs' = fs @ ws" "length ws = length (slices v')"
    and c: "\<And>k. k < length (slices v') \<Longrightarrow>
                 fst (ws ! k) = dcm_fname fname nslices (0 + k)
               \<and> slice_pass (if k = 0 then ds else snd (ws ! (k - 1))) (ct_studyid ct)
                     (ct_seriesid ct) (0 + k) (slices v' ! k) = Inr (snd (ws ! k))
               \<and> (\<exists>n. py_int (final_segment (SOPInstanceUID ds)) = Inr n
                     \<and> final_segment (SOPInstanceUID (snd (ws ! k)))
                         = py_str (n + (\<Sum>j = 0..0 + k. int j + (ct_studyid ct + ct_seriesid ct))))
               \<and> (\<exists>m. py_int (final_segment (MediaStorageSOPInstanceUID ds)) = Inr m
                     \<and> final_segment (MediaStorageSOPInstanceUID (snd (ws ! k)))
                         = py_str (m + (\<Sum>j = 0..0 + k. int j + (ct_studyid ct + ct_seriesid ct))))"
    by auto
  have f: "snd (ws ! k) =
                 ds\<lparr> InstanceNumber := int k + 1,
                     SOPInstanceUID := SOPInstanceUID (snd (ws ! k)),
                     MediaStorageSOPInstanceUID := MediaStorageSOPInstanceUID (snd (ws ! k)),
                     PixelData := Some (slices v' ! k) \<rparr>" if "k < length (slices v')" for k
    using write_slices_frame [where n = "length (slices v')" and idx = 0 and ds = ds and ws = ws
        and studyid = "ct_studyid ct" and seriesid = "ct_seriesid ct" and sl = "slices v'" and k = k]
      c that by simp
  have "\<forall>k < length ws.
               fst (ws ! k) = dcm_fname fname (length (slices r)) k
             \<and> slice_pass (if k = 0 then ds else snd (ws ! (k - 1))) (ct_studyid ct)
                   (ct_seriesid ct) k (slices v ! k) = Inr (snd (ws ! k))
             \<and> snd (ws ! k) =
                 ds\<lparr> InstanceNumber := int k + 1,
                     SOPInstanceUID := SOPInstanceUID (snd (ws ! k)),
                     MediaStorageSOPInstanceUID := MediaStorageSOPInstanceUID (snd (ws ! k)),
                     PixelData := Some (slices v ! k) \<rparr>
             \<and> (\<exists>n. py_int (final_segment (SOPInstanceUID ds)) = Inr n
                   \<and> final_segment (SOPInstanceUID (snd (ws ! k)))
                       = py_str (n + (\<Sum>j\<le>k. int j + (ct_studyid ct + ct_seriesid ct))))
             \<and> (\<exists>m. py_int (final_segment (MediaStorageSOPInstanceUID ds)) = Inr m
                   \<and> final_segment (MediaStorageSOPInstanceUID (snd (ws ! k)))
                       = py_str (m + (\<Sum>j\<le>k. int j + (ct_studyid ct + ct_seriesid ct))))"
  proof (intro allI impI)
    fix k assume "k < length ws"
    then have k: "k < length (slices v')" using ws(3) by simp
    from c [OF k] f [OF k] show "fst (ws ! k) = dcm_fname fname (length (slices r)) k
             \<and> slice_pass (if k = 0 then ds else snd (ws ! (k - 1))) (ct_studyid ct)
                   (ct_seriesid ct) k (slices v ! k) = Inr (snd (ws ! k))
             \<and> snd (ws ! k) =
                 ds\<lparr> InstanceNumber := int k + 1,
                     SOPInstanceUID := SOPInstanceUID (snd (ws ! k)),
                     MediaStorageSOPInstanceUID := MediaStorageSOPInstanceUID (snd (ws ! k)),
                     PixelData := Some (slices v ! k) \<rparr>
             \<and> (\<exists>n. py_int (final_segment (SOPInstanceUID ds)) = Inr n
                   \<and> final_segment (SOPInstanceUID (snd (ws ! k)))
                       = py_str (n + (\<Sum>j\<le>k. int j + (ct_studyid ct + ct_seriesid ct))))
             \<and> (\<exists>m. py_int (final_segment (MediaStorageSOPInstanceUID ds)) = Inr m
                   \<and> final_segment (MediaStorageSOPInstanceUID (snd (ws ! k)))
                       = py_str (m + (\<Sum>j\<le>k. int j + (ct_studyid ct + ct_seriesid ct))))"
      unfolding v(2) r(2) by (simp add: atLeast0AtMost)
  qed
  with ws r v h show ?thesis unfolding r(2) by (intro exI [of _ ws] exI [of _ ds] exI [of _ v] exI [of _ r]) simp
qed

lemmas py_eval = bump_uid_def final_segment_def py_split_def py_int_def py_strip_def is_space_def
  drop_sign_def digit_group_def is_digit_def digit_val_def digits_val_def py_str_def
  str_nat.simps digit_char_def Let_def fmt_03d_def zfill_def str_tenths_def py_float_def
  py_index_def endswith_def

lemmas path_eval = path_parts_def path_join_def path_str_def path_name_def path_parent_def
  after_dot_def has_suffix_def name_suffix_def name_stem_def dcm_fname_def

lemmas ct_eval = example_ct_def CTobj_init_def default_init_args_def init_phantom_def
  normalize_alias_def aliases_def options_def py_upper_def upper_char_def str_or_def
  run_def mirt_sim_def check_lesion_def mirt_fov_def example_sim_def

lemma example_ct_1_0_2:
  "example_ct 1 0 2 = Inr \<lparr> ct_phantom = ''CCT189'', ct_patient_diameter = 200,
            ct_reference_diameter = 200, ct_reference_fov = 340, ct_I0 = 300000,
            ct_ndetectors = 900, ct_nangles = 580, ct_detector_size = 1, ct_sid = 595,
            ct_sdd = 10856 / 10, ct_detector_offset = 5 / 4, ct_down_sampling = 1,
            ct_has_bowtie = False, ct_add_noise = True, ct_aec = True, ct_matrix_size = 512,
            ct_fov = 340, ct_kernel = ''hanning,2.05'', ct_nsims = 2,
            ct_lesion_diameter = LBool False, ct_age = 0,
            ct_patientname = ''20.0 cm CCT189'', ct_patientid = 0,
            ct_studyname = ''20.0 cm CCT189'', ct_studyid = 1, ct_seriesid = 0,
            ct_recon = Some (Vol3 [0, 1]), ct_projections = Some (Vol2 0),
            ct_groundtruth = Some (Vol2 0) \<rparr>"
  by (simp add: ct_eval py_eval upt_rec)

lemma bump_uid_replace:
  assumes "bump_uid uid k = Inr u"
  shows "\<exists>n. py_int (final_segment uid) = Inr n
           \<and> u = py_replace (final_segment uid) (py_str (n + k)) uid
           \<and> final_segment u = py_str (n + k)"
proof -
  from bump_uid_Inr [OF assms] obtain n where n: "py_int (final_segment uid) = Inr n" by blast
  from bump_uid_numeric [OF n, of k] assms show ?thesis using n by auto
qed

lemma frame_fields:
  "d = ds\<lparr> InstanceNumber := i, SOPInstanceUID := s, MediaStorageSOPInstanceUID := m,
            PixelData := p \<rparr> \<Longrightarrow>
   SeriesInstanceUID d = SeriesInstanceUID ds \<and> StudyInstanceUID d = StudyInstanceUID ds
   \<and> PatientName d = PatientName ds \<and> ImageComments d = ImageComments ds
   \<and> AcquisitionNumber d = AcquisitionNumber ds \<and> SeriesNumber d = SeriesNumber ds
   \<and> PatientID d = PatientID ds \<and> StudyID d = StudyID ds
   \<and> InstanceNumber d = i \<and> PixelData d = p"
  by simp

lemma dicom_header_fields:
  assumes "dicom_header template ct = Inr (ct', nslices, ds)"
  shows "bump_uid (SeriesInstanceUID template) (ct_studyid ct) = Inr (SeriesInstanceUID ds)"
    and "bump_uid (StudyInstanceUID template) (ct_studyid ct) = Inr (StudyInstanceUID ds)"
    and "SOPInstanceUID ds = SOPInstanceUID template"
    and "MediaStorageSOPInstanceUID ds = MediaStorageSOPInstanceUID template"
    and "PatientName ds = ct_patientname ct"
    and "ImageComments ds = ''effctive diameter [cm]: '' @ str_tenths (ct_patient_diameter ct)"
    and "AcquisitionNumber ds = ct_studyid ct"
    and "SeriesNumber ds = ct_seriesid ct"
    and "PatientID ds = fmt_03d (ct_patientid ct)"
    and "StudyID ds = py_str (ct_studyid ct)"
proof -
  from dicom_header_Inr [OF assms] obtain series study where
    s: "bump_uid (SeriesInstanceUID template) (ct_studyid ct) = Inr series"
       "bump_uid (StudyInstanceUID template) (ct_studyid ct) = Inr study"
    and e: "ds = template\<lparr> PatientName := ct_patientname ct, SeriesNumber := ct_seriesid ct,
                 PatientAge := fmt_03d (ct_age ct) @ ''Y'',
                 PatientID := fmt_03d (ct_patientid ct),
                 ImageComments :=
                   ''effctive diameter [cm]: '' @ str_tenths (ct_patient_diameter ct),
                 ReconstructionDiameter := ct_fov ct, Exposure := ct_I0 ct,
                 PixelSpacing := ct_fov ct / of_int (ct_matrix_size ct),
                 StudyID := py_str (ct_studyid ct),
                 SeriesInstanceUID := series,
                 StudyInstanceUID := study,
                 AcquisitionNumber := ct_studyid ct \<rparr>"
    by blast
  show "bump_uid (SeriesInstanceUID template) (ct_studyid ct) = Inr (SeriesInstanceUID ds)"
    using s(1) by (simp add: e)
  show "bump_uid (StudyInstanceUID template) (ct_studyid ct) = Inr (StudyInstanceUID ds)"
    using s(2) by (simp add: e)
  show "SOPInstanceUID ds = SOPInstanceUID template"
    "MediaStorageSOPInstanceUID ds = MediaStorageSOPInstanceUID template"
    "PatientName ds = ct_patientname ct"
    "ImageComments ds = ''effctive diameter [cm]: '' @ str_tenths (ct_patient_diameter ct)"
    "AcquisitionNumber ds = ct_studyid ct"
    "SeriesNumber ds = ct_seriesid ct"
    "PatientID ds = fmt_03d (ct_patientid ct)"
    "StudyID ds = py_str (ct_studyid ct)"
    by (simp_all add: e)
qed

lemma write_to_dicom_files:
  assumes "write_to_dicom template ct fname groundtruth fs = Inr (ct', fnames, fs')"
  obtains ws ds v r where
    "fs' = fs @ ws" "fnames = map fst ws" "ct_recon ct = Some r"
    "int (length (slices r)) = ct_nsims ct"
    "(if groundtruth then ct_groundtruth ct else ct_recon ct) = Some v"
    "length ws = length (slices v)"
    "dicom_header template ct = Inr (ct', length (slices r), ds)"
    "\<And>k. k < length ws \<Longrightarrow> fst (ws ! k) = dcm_fname fname (length (slices r)) k"
    "\<And>k. k < length ws \<Longrightarrow>
        slice_pass (if k = 0 then ds else snd (ws ! (k - 1))) (ct_studyid ct) (ct_seriesid ct) k
          (slices v ! k) = Inr (snd (ws ! k))"
    "\<And>k. k < length ws \<Longrightarrow>
        SeriesInstanceUID (snd (ws ! k)) = SeriesInstanceUID ds
      \<and> StudyInstanceUID (snd (ws ! k)) = StudyInstanceUID ds
      \<and> PatientName (snd (ws ! k)) = PatientName ds
      \<and> ImageComments (snd (ws ! k)) = ImageComments ds
      \<and> AcquisitionNumber (snd (ws ! k)) = AcquisitionNumber ds
      \<and> SeriesNumber (snd (ws ! k)) = SeriesNumber ds
      \<and> PatientID (snd (ws ! k)) = PatientID ds
      \<and> StudyID (snd (ws ! k)) = StudyID ds
      \<and> InstanceNumber (snd (ws ! k)) = int k + 1
      \<and> PixelData (snd (ws ! k)) = Some (slices v ! k)"
    "\<And>k. k < length ws \<Longrightarrow>
        \<exists>n. py_int (final_segment (SOPInstanceUID ds)) = Inr n
          \<and> final_segment (SOPInstanceUID (snd (ws ! k)))
              = py_str (n + (\<Sum>j\<le>k. int j + (ct_studyid ct + ct_seriesid ct)))"
    "\<And>k. k < length ws \<Longrightarrow>
        \<exists>m. py_int (final_segment (MediaStorageSOPInstanceUID ds)) = Inr m
          \<and> final_segment (MediaStorageSOPInstanceUID (snd (ws ! k)))
              = py_str (m + (\<Sum>j\<le>k. int j + (ct_studyid ct + ct_seriesid ct)))"
proof -
  from write_to_dicom_writes [OF assms] obtain ws ds v r where a:
         "fs' = fs @ ws \<and> fnames = map fst ws
         \<and> ct_recon ct = Some r \<and> int (length (slices r)) = ct_nsims ct
         \<and> (if groundtruth then ct_groundtruth ct else ct_recon ct) = Some v
         \<and> length ws = length (slices v)
         \<and> dicom_header template ct = Inr (ct', length (slices r), ds)
         \<and> (\<forall>k < length ws.
               fst (ws ! k) = dcm_fname fname (length (slices r)) k
             \<and> slice_pass (if k = 0 then ds else snd (ws ! (k - 1))) (ct_studyid ct)
                   (ct_seriesid ct) k (slices v ! k) = Inr (snd (ws ! k))
             \<and> snd (ws ! k) =
                 ds\<lparr> InstanceNumber := int k + 1,
                     SOPInstanceUID := SOPInstanceUID (snd (ws ! k)),
                     MediaStorageSOPInstanceUID := MediaStorageSOPInstanceUID (snd (ws ! k)),
                     PixelData := Some (slices v ! k) \<rparr>
             \<and> (\<exists>n. py_int (final_segment (SOPInstanceUID ds)) = Inr n
                   \<and> final_segment (SOPInstanceUID (snd (ws ! k)))
                       = py_str (n + (\<Sum>j\<le>k. int j + (ct_studyid ct + ct_seriesid ct))))
             \<and> (\<exists>m. py_int (final_segment (MediaStorageSOPInstanceUID ds)) = Inr m
                   \<and> final_segment (MediaStorageSOPInstanceUID (snd (ws ! k)))
                       = py_str (m + (\<Sum>j\<le>k. int j + (ct_studyid ct + ct_seriesid ct)))))"
    by (elim exE) (rule that)
  note b = a [THEN conjunct2]
  note c = b [THEN conjunct2]
  note d = c [THEN conjunct2]
  note e = d [THEN conjunct2]
  note f = e [THEN conjunct2]
  note g = f [THEN conjunct2]
  note q = g [THEN conjunct2, rule_format]
  note q2 = q [THEN conjunct2]
  note q3 = q2 [THEN conjunct2]
  note q4 = q3 [THEN conjunct2]
  show ?thesis
  proof (rule that [of ws r v ds])
    show "fs' = fs @ ws" by (rule a [THEN conjunct1])
    show "fnames = map fst ws" by (rule b [THEN conjunct1])
    show "ct_recon ct = Some r" by (rule c [THEN conjunct1])
    show "int (length (slices r)) = ct_nsims ct" by (rule d [THEN conjunct1])
    show "(if groundtruth then ct_groundtruth ct else ct_recon ct) = Some v"
      by (rule e [THEN conjunct1])
    show "length ws = length (slices v)" by (rule f [THEN conjunct1])
    show "dicom_header template ct = Inr (ct', length (slices r), ds)"
      by (rule g [THEN conjunct1])
    show "fst (ws ! k) = dcm_fname fname (length (slices r)) k" if "k < length ws" for k
      by (rule q [THEN conjunct1, OF that])
    show "slice_pass (if k = 0 then ds else snd (ws ! (k - 1))) (ct_studyid ct) (ct_seriesid ct) k
          (slices v ! k) = Inr (snd (ws ! k))" if "k < length ws" for k
      by (rule q2 [THEN conjunct1, OF that])
    show "SeriesInstanceUID (snd (ws ! k)) = SeriesInstanceUID ds
      \<and> StudyInstanceUID (snd (ws ! k)) = StudyInstanceUID ds
      \<and> PatientName (snd (ws ! k)) = PatientName ds
      \<and> ImageComments (snd (ws ! k)) = ImageComments ds
      \<and> AcquisitionNumber (snd (ws ! k)) = AcquisitionNumber ds
      \<and> SeriesNumber (snd (ws ! k)) = SeriesNumber ds
      \<and> PatientID (snd (ws ! k)) = PatientID ds
      \<and> StudyID (snd (ws ! k)) = StudyID ds
      \<and> InstanceNumber (snd (ws ! k)) = int k + 1
      \<and> PixelData (snd (ws ! k)) = Some (slices v ! k)" if "k < length ws" for k
      by (rule frame_fields [OF q3 [THEN conjunct1, OF that]])
    show "\<exists>n. py_int (final_segment (SOPInstanceUID ds)) = Inr n
          \<and> final_segment (SOPInstanceUID (snd (ws ! k)))
              = py_str (n + (\<Sum>j\<le>k. int j + (ct_studyid ct + ct_seriesid ct)))"
      if "k < length ws" for k
      by (rule q4 [THEN conjunct1, OF that])
    show "\<exists>m. py_int (final_segment (MediaStorageSOPInstanceUID ds)) = Inr m
          \<and> final_segment (MediaStorageSOPInstanceUID (snd (ws ! k)))
              = py_str (m + (\<Sum>j\<le>k. int j + (ct_studyid ct + ct_seriesid ct)))"
      if "k < length ws" for k
      by (rule q4 [THEN conjunct2, OF that])
  qed
qed

subsection \<open>The UIDs that write_to_dicom derives\<close>

lemma replicate_numeral: "replicate (numeral k) x = x # replicate (pred_numeral k) x"
  by (simp add: numeral_eq_Suc)

lemmas wd_eval = write_to_dicom_def dicom_header_def slice_pass_def CT_small_def replicate_numeral

lemma example_write_1_0_2:
  "write_to_dicom CT_small (projr (example_ct 1 0 2)) [''out'', ''ct.dcm''] False []
   = Inr (projr (example_ct 1 0 2),
          [[''out'', ''ct_000.dcm''], [''out'', ''ct_001.dcm'']],
          snd (snd (projr (write_to_dicom CT_small (projr (example_ct 1 0 2))
                             [''out'', ''ct.dcm''] False []))))"
  by (simp add: example_ct_1_0_2 wd_eval py_eval path_eval)

lemma example_write_1_0_2_files:
  "map (\<lambda>(p, d). (p, InstanceNumber d, SOPInstanceUID d))
     (snd (snd (projr (write_to_dicom CT_small (projr (example_ct 1 0 2))
                         [''out'', ''ct.dcm''] False []))))
   = [([''out'', ''ct_000.dcm''], 1, ''1.3.6.1.4.1.5962.1.1.1.1.1.20040119072730.12323''),
      ([''out'', ''ct_001.dcm''], 2, ''1.3.6.1.4.1.5962.1.1.1.1.1.20040119072730.12325'')]"
  by (simp add: example_ct_1_0_2 wd_eval py_eval path_eval)

text \<open>
  C2 (amended). In every successful call of \<^verbatim>\<open>write_to_dicom\<close>, for the file of slice
  \<open>k\<close>: the Series and Study UIDs are the template's UIDs with the final dot-delimited
  number replaced by that number plus the study id; the SOP and media-storage UIDs come
  from the UIDs of the slice before (from the template's for slice 0) by replacing the
  final number by that number plus slice index + study id + series id. Relative to the
  template, the final number of the SOP and media-storage UIDs of slice \<open>k\<close> has
  therefore grown by the sum of \<open>j + study id + series id\<close> over the slices
  \<open>j = 0, ..., k\<close>.
\<close>

theorem write_to_dicom_uid_derivation:
  assumes "write_to_dicom template ct fname groundtruth fs = Inr (ct', fnames, fs')"
      and "k < length fnames"
  shows "\<exists>a b n m.
      py_int (final_segment (SeriesInstanceUID template)) = Inr a
    \<and> py_int (final_segment (StudyInstanceUID template)) = Inr b
    \<and> py_int (final_segment (SOPInstanceUID template)) = Inr n
    \<and> py_int (final_segment (MediaStorageSOPInstanceUID template)) = Inr m
    \<and> SeriesInstanceUID (snd (fs' ! (length fs + k)))
        = py_replace (final_segment (SeriesInstanceUID template)) (py_str (a + ct_studyid ct))
            (SeriesInstanceUID template)
    \<and> StudyInstanceUID (snd (fs' ! (length fs + k)))
        = py_replace (final_segment (StudyInstanceUID template)) (py_str (b + ct_studyid ct))
            (StudyInstanceUID template)
    \<and> final_segment (SeriesInstanceUID (snd (fs' ! (length fs + k)))) = py_str (a + ct_studyid ct)
    \<and> final_segment (StudyInstanceUID (snd (fs' ! (length fs + k)))) = py_str (b + ct_studyid ct)
    \<and> bump_uid (SOPInstanceUID (if k = 0 then template else snd (fs' ! (length fs + k - 1))))
          (int k + ct_studyid ct + ct_seriesid ct)
        = Inr (SOPInstanceUID (snd (fs' ! (length fs + k))))
    \<and> bump_uid (MediaStorageSOPInstanceUID
                   (if k = 0 then template else snd (fs' ! (length fs + k - 1))))
          (int k + ct_studyid ct + ct_seriesid ct)
        = Inr (MediaStorageSOPInstanceUID (snd (fs' ! (length fs + k))))
    \<and> final_segment (SOPInstanceUID (snd (fs' ! (length fs + k))))
        = py_str (n + (\<Sum>j\<le>k. int j + (ct_studyid ct + ct_seriesid ct)))
    \<and> final_segment (MediaStorageSOPInstanceUID (snd (fs' ! (length fs + k))))
        = py_str (m + (\<Sum>j\<le>k. int j + (ct_studyid ct + ct_seriesid ct)))"
proof -
  from assms(1) obtain ws ds v r where
    ws: "fs' = fs @ ws" "fnames = map fst ws"
    and rc: "ct_recon ct = Some r" "int (length (slices r)) = ct_nsims ct"
      "(if groundtruth then ct_groundtruth ct else ct_recon ct) = Some v"
      "length ws = length (slices v)"
    and h: "dicom_header template ct = Inr (ct', length (slices r), ds)"
    and nm: "\<And>k. k < length ws \<Longrightarrow> fst (ws ! k) = dcm_fname fname (length (slices r)) k"
    and pass: "\<And>k. k < length ws \<Longrightarrow>
        slice_pass (if k = 0 then ds else snd (ws ! (k - 1))) (ct_studyid ct) (ct_seriesid ct) k
          (slices v ! k) = Inr (snd (ws ! k))"
    and fr: "\<And>k. k < length ws \<Longrightarrow>
        SeriesInstanceUID (snd (ws ! k)) = SeriesInstanceUID ds
      \<and> StudyInstanceUID (snd (ws ! k)) = StudyInstanceUID ds
      \<and> PatientName (snd (ws ! k)) = PatientName ds
      \<and> ImageComments (snd (ws ! k)) = ImageComments ds
      \<and> AcquisitionNumber (snd (ws ! k)) = AcquisitionNumber ds
      \<and> SeriesNumber (snd (ws ! k)) = SeriesNumber ds
      \<and> PatientID (snd (ws ! k)) = PatientID ds
      \<and> StudyID (snd (ws ! k)) = StudyID ds
      \<and> InstanceNumber (snd (ws ! k)) = int k + 1
      \<and> PixelData (snd (ws ! k)) = Some (slices v ! k)"
    and sop: "\<And>k. k < length ws \<Longrightarrow>
        \<exists>n. py_int (final_segment (SOPInstanceUID ds)) = Inr n
          \<and> final_segment (SOPInstanceUID (snd (ws ! k)))
              = py_str (n + (\<Sum>j\<le>k. int j + (ct_studyid ct + ct_seriesid ct)))"
    and media: "\<And>k. k < length ws \<Longrightarrow>
        \<exists>m. py_int (final_segment (MediaStorageSOPInstanceUID ds)) = Inr m
          \<and> final_segment (MediaStorageSOPInstanceUID (snd (ws ! k)))
              = py_str (m + (\<Sum>j\<le>k. int j + (ct_studyid ct + ct_seriesid ct)))"
    by (rule write_to_dicom_files) (rule that)
  from assms(2) ws(2) have k: "k < length ws" by simp
  have d: "fs' ! (length fs + k) = ws ! k" by (simp add: ws(1))
  have p: "fs' ! (length fs + k - 1) = ws ! (k - 1)" if "k \<noteq> 0"
  proof -
    from that have "length fs + k - 1 = length fs + (k - 1)" by simp
    then show ?thesis by (simp only: ws(1) nth_append_length_plus)
  qed
  note hf = dicom_header_fields [OF h]
  from bump_uid_replace [OF hf(1)] obtain a where
    a: "py_int (final_segment (SeriesInstanceUID template)) = Inr a"
       "SeriesInstanceUID ds = py_replace (final_segment (SeriesInstanceUID template))
            (py_str (a + ct_studyid ct)) (SeriesInstanceUID template)"
       "final_segment (SeriesInstanceUID ds) = py_str (a + ct_studyid ct)" by blast
  from bump_uid_replace [OF hf(2)] obtain b where
    b: "py_int (final_segment (StudyInstanceUID template)) = Inr b"
       "StudyInstanceUID ds = py_replace (final_segment (StudyInstanceUID template))
            (py_str (b + ct_studyid ct)) (StudyInstanceUID template)"
       "final_segment (StudyInstanceUID ds) = py_str (b + ct_studyid ct)" by blast
  from sop [OF k] obtain n where
    n: "py_int (final_segment (SOPInstanceUID ds)) = Inr n"
       "final_segment (SOPInstanceUID (snd (ws ! k)))
           = py_str (n + (\<Sum>j\<le>k. int j + (ct_studyid ct + ct_seriesid ct)))" by blast
  from media [OF k] obtain m where
    m: "py_int (final_segment (MediaStorageSOPInstanceUID ds)) = Inr m"
       "final_segment (MediaStorageSOPInstanceUID (snd (ws ! k)))
           = py_str (m + (\<Sum>j\<le>k. int j + (ct_studyid ct + ct_seriesid ct)))" by blast
  have se: "SeriesInstanceUID (snd (ws ! k)) = SeriesInstanceUID ds"
    "StudyInstanceUID (snd (ws ! k)) = StudyInstanceUID ds"
    using fr [OF k] by blast+
  have prev: "SOPInstanceUID (if k = 0 then template else snd (fs' ! (length fs + k - 1)))
           = SOPInstanceUID (if k = 0 then ds else snd (ws ! (k - 1)))"
     "MediaStorageSOPInstanceUID (if k = 0 then template else snd (fs' ! (length fs + k - 1)))
           = MediaStorageSOPInstanceUID (if k = 0 then ds else snd (ws ! (k - 1)))"
    using p hf(3,4) by (cases "k = 0"; simp)+
  from slice_pass_Inr [OF pass [OF k]]
  have bump: "bump_uid (SOPInstanceUID (if k = 0 then ds else snd (ws ! (k - 1))))
                (int k + ct_studyid ct + ct_seriesid ct) = Inr (SOPInstanceUID (snd (ws ! k)))"
       "bump_uid (MediaStorageSOPInstanceUID (if k = 0 then ds else snd (ws ! (k - 1))))
                (int k + ct_studyid ct + ct_seriesid ct)
          = Inr (MediaStorageSOPInstanceUID (snd (ws ! k)))"
    by blast+
  have n': "py_int (final_segment (SOPInstanceUID template)) = Inr n"
    and m': "py_int (final_segment (MediaStorageSOPInstanceUID template)) = Inr m"
    using n(1) m(1) hf(3,4) by simp_all
  show ?thesis
    apply (rule exI [of _ a], rule exI [of _ b], rule exI [of _ n], rule exI [of _ m])
    unfolding d prev se
    apply (intro conjI)
    apply (rule a(1), rule b(1), rule n', rule m', rule a(2), rule b(2), rule a(3), rule b(3))
    apply (rule bump(1), rule bump(2), rule n(2), rule m(2))
    done
qed

theorem write_to_dicom_uid_derivation_witness:
  "final_segment (SOPInstanceUID (snd (snd (snd (projr (write_to_dicom CT_small
      (projr (example_ct 1 0 2)) [''out'', ''ct.dcm''] False []))) ! 1))) = ''12325''
   \<and> final_segment (SeriesInstanceUID (snd (snd (snd (projr (write_to_dicom CT_small
      (projr (example_ct 1 0 2)) [''out'', ''ct.dcm''] False []))) ! 1))) = ''12323''"
proof -
  let ?fs = "snd (snd (projr (write_to_dicom CT_small
      (projr (example_ct 1 0 2)) [''out'', ''ct.dcm''] False [])))"
  have k: "1 < length [[''out'', ''ct_000.dcm''], [''out'', ''ct_001.dcm'']]" by simp
  from write_to_dicom_uid_derivation [OF example_write_1_0_2 k]
  obtain a n where
    a: "py_int (final_segment (SeriesInstanceUID CT_small)) = Inr a"
    and n: "py_int (final_segment (SOPInstanceUID CT_small)) = Inr n"
    and s: "final_segment (SeriesInstanceUID (snd (?fs ! (length ([] :: nat filesystem) + 1))))
             = py_str (a + ct_studyid (projr (example_ct 1 0 2)))"
    and p: "final_segment (SOPInstanceUID (snd (?fs ! (length ([] :: nat filesystem) + 1))))
             = py_str (n + (\<Sum>j\<le>1. int j + (ct_studyid (projr (example_ct 1 0 2))
                                              + ct_seriesid (projr (example_ct 1 0 2)))))"
    by blast
  from a have a': "a = 12322" by (simp add: CT_small_def py_eval)
  from n have n': "n = 12322" by (simp add: CT_small_def py_eval)
  have "{..1::nat} = {0, 1}" by auto
  then have sm: "(\<Sum>j\<le>(1::nat). int j + (1 + 0)) = 3" by simp
  from s p show ?thesis
    unfolding a' n' by (simp add: example_ct_1_0_2 sm py_eval)
qed

text \<open>
  The claim as written fails from the second slice on. With study id 1, series id 0 and
  two slices, the template's SOP UID bumped by slice index + study id + series id
  = 1 + 1 + 0 ends in 12324, but the file of slice 1 carries a UID that ends in 12325:
  the offset was added to the UID of slice 0, not to the template's.
\<close>

theorem sop_uid_offset_counterexample:
  "bump_uid (SOPInstanceUID CT_small) (1 + 1 + 0)
     = Inr ''1.3.6.1.4.1.5962.1.1.1.1.1.20040119072730.12324''
   \<and> map (\<lambda>(p, d). (p, InstanceNumber d, SOPInstanceUID d))
       (snd (snd (projr (write_to_dicom CT_small (projr (example_ct 1 0 2))
                           [''out'', ''ct.dcm''] False []))))
     = [([''out'', ''ct_000.dcm''], 1, ''1.3.6.1.4.1.5962.1.1.1.1.1.20040119072730.12323''),
        ([''out'', ''ct_001.dcm''], 2, ''1.3.6.1.4.1.5962.1.1.1.1.1.20040119072730.12325'')]"
  by (simp add: example_write_1_0_2_files) (simp add: CT_small_def py_eval)

subsection \<open>The names of the files written\<close>





end
